theory Spec2Isabelle
  imports Main "HOL-Library.Word" "HOL-Library.Sublist"
begin

section \<open>JavaScript values\<close>

text \<open>
  A JavaScript string is a sequence of 16-bit code units. The regular expression of
  \<open>sanitizeToolName\<close> has no \<open>u\<close> flag, so it works on code units, and so does
  \<open>String.prototype.includes\<close>. \<open>utf16\<close> turns an ASCII literal into its code units.
\<close>

type_synonym code_unit = "16 word"

type_synonym jstring = "code_unit list"

definition cu :: "char \<Rightarrow> code_unit" where
  "cu c = of_nat (of_char c)"

definition utf16 :: "string \<Rightarrow> jstring" where
  "utf16 s = map cu s"

text \<open>
  The values a tool call carries are those of a parsed JSON text, and \<open>undefined\<close> for a
  property that is not there. Numbers are integers: no claim computes with them. An object
  is the list of its own properties, in property order.
\<close>

datatype jsval =
    JUndefined
  | JNull
  | JBool bool
  | JNum int
  | JStr jstring
  | JArr "jsval list"
  | JObj "(jstring \<times> jsval) list"

text \<open>Every thrown value of the program is an \<open>Error\<close> object: a name and a message.\<close>

datatype js_error = JsError (err_name: jstring) (err_message: jstring)

text \<open>\<open>ToBoolean\<close>: what \<open>if (v)\<close>, \<open>!v\<close> and \<open>v || w\<close> test.\<close>

fun truthy :: "jsval \<Rightarrow> bool" where
  "truthy JUndefined = False"
| "truthy JNull = False"
| "truthy (JBool b) = b"
| "truthy (JNum n) = (n \<noteq> 0)"
| "truthy (JStr s) = (s \<noteq> [])"
| "truthy (JArr xs) = True"
| "truthy (JObj kvs) = True"

text \<open>
  \<open>v.k\<close> for a property name \<open>k\<close> that no prototype defines (every name read below is
  such a name): a \<open>TypeError\<close> on \<open>undefined\<close> and \<open>null\<close>, the own property of an
  object, \<open>undefined\<close> on everything else.
\<close>

definition own :: "(jstring \<times> jsval) list \<Rightarrow> string \<Rightarrow> jsval" where
  "own kvs k = (case map_of kvs (utf16 k) of Some v \<Rightarrow> v | None \<Rightarrow> JUndefined)"

definition cannot_read :: "string \<Rightarrow> string \<Rightarrow> js_error" where
  "cannot_read what k = JsError (utf16 ''TypeError'')
     (utf16 (''Cannot read properties of '' @ what @ '' (reading '' @ [CHR 0x27] @ k @ [CHR 0x27] @ '')''))"

fun getprop :: "jsval \<Rightarrow> string \<Rightarrow> js_error + jsval" where
  "getprop JUndefined k = Inl (cannot_read ''undefined'' k)"
| "getprop JNull k = Inl (cannot_read ''null'' k)"
| "getprop (JObj kvs) k = Inr (own kvs k)"
| "getprop v k = Inr JUndefined"

text \<open>
  \<open>v.includes(t)\<close> for a string \<open>t\<close>: substring search on a string, membership on an
  array, and a \<open>TypeError\<close> on a value that has no such method.
\<close>

fun js_includes :: "jsval \<Rightarrow> string \<Rightarrow> js_error + bool" where
  "js_includes (JStr s) t = Inr (sublist (utf16 t) s)"
| "js_includes (JArr xs) t = Inr (JStr (utf16 t) \<in> set xs)"
| "js_includes v t = Inl (JsError (utf16 ''TypeError'') (utf16 ''keyCondition.includes is not a function''))"

text \<open>\<open>Error.prototype.toString\<close>, which a template literal applies to a caught error.\<close>

definition error_toString :: "js_error \<Rightarrow> jstring" where
  "error_toString e =
     (if err_name e = [] then err_message e
      else if err_message e = [] then err_name e
      else err_name e @ utf16 '': '' @ err_message e)"

section \<open>Tool names\<close>

text \<open>
  \<open>name.replace(/[^a-zA-Z0-9_-]/g, '_')\<close>: \<open>name_char\<close> is the character class,
  and every code unit outside it becomes an underscore.
\<close>

definition name_char :: "code_unit \<Rightarrow> bool" where
  "name_char c \<longleftrightarrow>
     (cu CHR ''a'' \<le> c \<and> c \<le> cu CHR ''z'') \<or>
     (cu CHR ''A'' \<le> c \<and> c \<le> cu CHR ''Z'') \<or>
     (cu CHR ''0'' \<le> c \<and> c \<le> cu CHR ''9'') \<or>
     c = cu CHR ''_'' \<or> c = cu CHR ''-''"

definition sanitizeToolName :: "jstring \<Rightarrow> jstring" where
  "sanitizeToolName name = map (\<lambda>c. if name_char c then c else cu CHR ''_'') name"

text \<open>
  \<open>sanitizedToOriginalToolName\<close> is a plain object created by \<open>{}\<close>: reading a key that
  is not an own property goes on to \<open>Object.prototype\<close>, whose members are functions (and,
  for \<open>__proto__\<close>, the prototype object itself), all of them truthy.
\<close>

definition Object_prototype_keys :: "jstring list" where
  "Object_prototype_keys = map utf16
     [''constructor'', ''__defineGetter__'', ''__defineSetter__'', ''hasOwnProperty'',
      ''__lookupGetter__'', ''__lookupSetter__'', ''isPrototypeOf'', ''propertyIsEnumerable'',
      ''toString'', ''valueOf'', ''__proto__'', ''toLocaleString'']"

text \<open>
  The value of \<open>this.sanitizedToOriginalToolName[sanitizedToolName] || optimized.name\<close>:
  a tool name, or a member of \<open>Object.prototype\<close>, which is no string at all.
\<close>

datatype callee = ToolName jstring | PrototypeMember jstring

definition mcpToolName :: "(jstring \<rightharpoonup> jstring) \<Rightarrow> jstring \<Rightarrow> jstring \<Rightarrow> callee" where
  "mcpToolName mapping sanitizedToolName optimized_name =
     (case mapping sanitizedToolName of
        Some original \<Rightarrow> if original \<noteq> [] then ToolName original else ToolName optimized_name
      | None \<Rightarrow>
          if sanitizedToolName \<in> set Object_prototype_keys then PrototypeMember sanitizedToolName
          else ToolName optimized_name)"

section \<open>The query optimizer\<close>

definition scan_args :: "jsval \<Rightarrow> jsval \<Rightarrow> jsval \<Rightarrow> jsval \<Rightarrow> jsval \<Rightarrow> jsval" where
  "scan_args tableName filterExpression names vals lim =
     JObj [(utf16 ''tableName'', tableName),
           (utf16 ''filterExpression'', filterExpression),
           (utf16 ''expressionAttributeNames'', names),
           (utf16 ''expressionAttributeValues'', vals),
           (utf16 ''limit'', lim)]"

text \<open>
  \<open>optimizeQuery\<close>. The three \<open>includes\<close> calls have the same receiver, so either the
  first one throws or none does. Once \<open>toolArgs.keyConditionExpression\<close> has been read,
  \<open>toolArgs\<close> is neither \<open>undefined\<close> nor \<open>null\<close> and the other reads cannot throw.
\<close>

definition read :: "jsval \<Rightarrow> string \<Rightarrow> jsval" where
  "read v k = (case getprop v k of Inl e \<Rightarrow> JUndefined | Inr x \<Rightarrow> x)"

definition optimizeQuery :: "jstring \<Rightarrow> jsval \<Rightarrow> js_error + (jstring \<times> jsval)" where
  "optimizeQuery toolName toolArgs =
     (if toolName = utf16 ''dynamodb:query_table'' then
        (case getprop toolArgs ''keyConditionExpression'' of
           Inl e \<Rightarrow> Inl e
         | Inr kce \<Rightarrow>
             let keyCondition = (if truthy kce then kce else JStr []) in
             (case js_includes keyCondition ''Age'' of
                Inl e \<Rightarrow> Inl e
              | Inr hasAge \<Rightarrow>
                  if hasAge \<and> js_includes keyCondition ''Name'' = Inr False
                     \<and> js_includes keyCondition ''#name'' = Inr False
                  then Inr (utf16 ''dynamodb:scan_table'',
                            scan_args (read toolArgs ''tableName'') kce
                              (read toolArgs ''expressionAttributeNames'')
                              (read toolArgs ''expressionAttributeValues'')
                              (read toolArgs ''limit''))
                  else Inr (toolName, toolArgs)))
      else Inr (toolName, toolArgs))"

section \<open>A JSON reader and writer for the examples\<close>

text \<open>
  \<open>JSON.parse\<close> and \<open>JSON.stringify\<close> belong to the JavaScript runtime, and the program
  below takes them as parameters. To run the program on concrete texts, \<open>json_parse\<close> reads
  the JSON grammar (white space, literals, strings with their escapes, arrays, objects, whose
  repeated keys keep the last value and whose array-index keys come first) and
  \<open>json_stringify\<close> writes a value as \<open>JSON.stringify(v, null, 2)\<close> does. Numbers are the
  integer literals of at most fifteen digits: a fraction or an exponent is a floating-point
  number, which this reader does not read (it answers \<open>None\<close>, where the runtime would
  answer a number). \<open>None\<close> stands for the \<open>SyntaxError\<close> that \<open>JSON.parse\<close> throws. The
  recursion is on a fuel that the length of the text bounds.
\<close>

definition is_ws :: "code_unit \<Rightarrow> bool" where
  "is_ws c \<longleftrightarrow> c = 0x20 \<or> c = 0x09 \<or> c = 0x0A \<or> c = 0x0D"

definition skip_ws :: "jstring \<Rightarrow> jstring" where
  "skip_ws s = dropWhile is_ws s"

definition is_digit :: "code_unit \<Rightarrow> bool" where
  "is_digit c \<longleftrightarrow> cu CHR ''0'' \<le> c \<and> c \<le> cu CHR ''9''"

definition digits_value :: "jstring \<Rightarrow> int" where
  "digits_value ds = foldl (\<lambda>a d. 10 * a + (uint d - 48)) 0 ds"

definition parse_number :: "jstring \<Rightarrow> (jsval \<times> jstring) option" where
  "parse_number s =
     (let negative = (s \<noteq> [] \<and> hd s = cu CHR ''-'');
          body = (if negative then tl s else s);
          ds = takeWhile is_digit body;
          rest = dropWhile is_digit body
      in if ds = [] \<or> 15 < length ds then None
         else if hd ds = cu CHR ''0'' \<and> 1 < length ds then None
         else if rest \<noteq> [] \<and> hd rest \<in> {cu CHR ''.'', cu CHR ''e'', cu CHR ''E''} then None
         else Some (JNum (if negative then - digits_value ds else digits_value ds), rest))"

definition hex_value :: "code_unit \<Rightarrow> nat option" where
  "hex_value c =
     (if cu CHR ''0'' \<le> c \<and> c \<le> cu CHR ''9'' then Some (unat c - 48)
      else if cu CHR ''a'' \<le> c \<and> c \<le> cu CHR ''f'' then Some (unat c - 87)
      else if cu CHR ''A'' \<le> c \<and> c \<le> cu CHR ''F'' then Some (unat c - 55)
      else None)"

definition hex4 :: "jstring \<Rightarrow> code_unit option" where
  "hex4 s =
     (if length s = 4 \<and> list_all (\<lambda>c. hex_value c \<noteq> None) s
      then Some (of_nat (foldl (\<lambda>a c. 16 * a + the (hex_value c)) 0 s))
      else None)"

definition unescape :: "code_unit \<Rightarrow> code_unit option" where
  "unescape e =
     (if e = cu CHR 0x22 then Some 0x22
      else if e = cu CHR 0x5C then Some 0x5C
      else if e = cu CHR ''/'' then Some (cu CHR ''/'')
      else if e = cu CHR ''b'' then Some 0x08
      else if e = cu CHR ''f'' then Some 0x0C
      else if e = cu CHR ''n'' then Some 0x0A
      else if e = cu CHR ''r'' then Some 0x0D
      else if e = cu CHR ''t'' then Some 0x09
      else None)"

definition cons_fst :: "'a \<Rightarrow> ('a list \<times> 'b) option \<Rightarrow> ('a list \<times> 'b) option" where
  "cons_fst x r = map_option (\<lambda>(xs, rest). (x # xs, rest)) r"

fun parse_chars :: "jstring \<Rightarrow> (jstring \<times> jstring) option" where
  "parse_chars [] = None"
| "parse_chars (c # cs) =
     (if c = 0x22 then Some ([], cs)
      else if c = 0x5C then
        (case cs of
           [] \<Rightarrow> None
         | e # es \<Rightarrow>
             if e = cu CHR ''u'' then
               (case hex4 (take 4 es) of
                  None \<Rightarrow> None
                | Some u \<Rightarrow> cons_fst u (parse_chars (drop 4 es)))
             else
               (case unescape e of
                  None \<Rightarrow> None
                | Some u \<Rightarrow> cons_fst u (parse_chars es)))
      else if c < 0x20 then None
      else cons_fst c (parse_chars cs))"

fun literal :: "string \<Rightarrow> jstring \<Rightarrow> jstring option" where
  "literal w s = (if prefix (utf16 w) s then Some (drop (length w) s) else None)"

definition is_index :: "jstring \<Rightarrow> bool" where
  "is_index k \<longleftrightarrow> k \<noteq> [] \<and> list_all is_digit k \<and> (length k = 1 \<or> hd k \<noteq> cu CHR ''0'')
     \<and> length k \<le> 10 \<and> digits_value k < 4294967295"

fun put_property :: "jstring \<Rightarrow> jsval \<Rightarrow> (jstring \<times> jsval) list \<Rightarrow> (jstring \<times> jsval) list" where
  "put_property k v [] = [(k, v)]"
| "put_property k v ((k', v') # kvs) = (if k = k' then (k, v) # kvs else (k', v') # put_property k v kvs)"

definition property_order :: "(jstring \<times> jsval) list \<Rightarrow> (jstring \<times> jsval) list" where
  "property_order kvs =
     sort_key (\<lambda>(k, v). digits_value k) (filter (\<lambda>(k, v). is_index k) kvs)
     @ filter (\<lambda>(k, v). \<not> is_index k) kvs"

definition object_of :: "(jstring \<times> jsval) list \<Rightarrow> jsval" where
  "object_of members = JObj (property_order (foldl (\<lambda>kvs (k, v). put_property k v kvs) [] members))"

fun parse_value :: "nat \<Rightarrow> jstring \<Rightarrow> (jsval \<times> jstring) option"
  and parse_elements :: "nat \<Rightarrow> jstring \<Rightarrow> (jsval list \<times> jstring) option"
  and parse_members :: "nat \<Rightarrow> jstring \<Rightarrow> ((jstring \<times> jsval) list \<times> jstring) option"
where
  "parse_value 0 s = None"
| "parse_value (Suc fuel) s =
     (case skip_ws s of
        [] \<Rightarrow> None
      | c # r \<Rightarrow>
          if c = 0x22 then map_option (\<lambda>(t, rest). (JStr t, rest)) (parse_chars r)
          else if c = cu CHR ''['' then
            (case skip_ws r of
               [] \<Rightarrow> None
             | d # r' \<Rightarrow>
                 if d = cu CHR '']'' then Some (JArr [], r')
                 else map_option (\<lambda>(xs, rest). (JArr xs, rest)) (parse_elements fuel (d # r')))
          else if c = cu CHR ''{'' then
            (case skip_ws r of
               [] \<Rightarrow> None
             | d # r' \<Rightarrow>
                 if d = cu CHR ''}'' then Some (JObj [], r')
                 else map_option (\<lambda>(kvs, rest). (object_of kvs, rest)) (parse_members fuel (d # r')))
          else if c = cu CHR ''n'' then map_option (Pair JNull) (literal ''null'' (c # r))
          else if c = cu CHR ''t'' then map_option (Pair (JBool True)) (literal ''true'' (c # r))
          else if c = cu CHR ''f'' then map_option (Pair (JBool False)) (literal ''false'' (c # r))
          else parse_number (c # r))"
| "parse_elements 0 s = None"
| "parse_elements (Suc fuel) s =
     (case parse_value fuel s of
        None \<Rightarrow> None
      | Some (v, r) \<Rightarrow>
          (case skip_ws r of
             [] \<Rightarrow> None
           | c # r' \<Rightarrow>
               if c = cu CHR '']'' then Some ([v], r')
               else if c = cu CHR '','' then cons_fst v (parse_elements fuel r')
               else None))"
| "parse_members 0 s = None"
| "parse_members (Suc fuel) s =
     (case skip_ws s of
        [] \<Rightarrow> None
      | q # r \<Rightarrow>
          if q \<noteq> 0x22 then None
          else
            (case parse_chars r of
               None \<Rightarrow> None
             | Some (k, r1) \<Rightarrow>
                 (case skip_ws r1 of
                    [] \<Rightarrow> None
                  | c # r2 \<Rightarrow>
                      if c \<noteq> cu CHR '':'' then None
                      else
                        (case parse_value fuel r2 of
                           None \<Rightarrow> None
                         | Some (v, r3) \<Rightarrow>
                             (case skip_ws r3 of
                                [] \<Rightarrow> None
                              | d # r4 \<Rightarrow>
                                  if d = cu CHR ''}'' then Some ([(k, v)], r4)
                                  else if d = cu CHR '','' then cons_fst (k, v) (parse_members fuel r4)
                                  else None)))))"

definition json_parse :: "jstring \<Rightarrow> jsval option" where
  "json_parse s =
     (case parse_value (Suc (length s)) s of
        None \<Rightarrow> None
      | Some (v, rest) \<Rightarrow> if skip_ws rest = [] then Some v else None)"

text \<open>
  The writer, with the two-space indentation of \<open>JSON.stringify(v, null, 2)\<close>. A property
  whose value is \<open>undefined\<close> is left out, and \<open>undefined\<close> in an array is written
  \<open>null\<close>. The program only writes values that \<open>JSON.parse\<close> has returned, so the
  writer is never asked for \<open>undefined\<close> itself, for which \<open>JSON.stringify\<close> answers no
  text at all.
\<close>

definition hex_digit :: "nat \<Rightarrow> code_unit" where
  "hex_digit d = (if d < 10 then of_nat (48 + d) else of_nat (87 + d))"

definition u_escape :: "code_unit \<Rightarrow> jstring" where
  "u_escape c =
     [0x5C, cu CHR ''u'', hex_digit (unat c div 4096), hex_digit (unat c div 256 mod 16),
      hex_digit (unat c div 16 mod 16), hex_digit (unat c mod 16)]"

definition high_surrogate :: "code_unit \<Rightarrow> bool" where
  "high_surrogate c \<longleftrightarrow> 0xD800 \<le> c \<and> c \<le> 0xDBFF"

definition low_surrogate :: "code_unit \<Rightarrow> bool" where
  "low_surrogate c \<longleftrightarrow> 0xDC00 \<le> c \<and> c \<le> 0xDFFF"

definition escape_unit :: "code_unit \<Rightarrow> jstring" where
  "escape_unit c =
     (if c = 0x22 then [0x5C, 0x22]
      else if c = 0x5C then [0x5C, 0x5C]
      else if c = 0x08 then [0x5C, cu CHR ''b'']
      else if c = 0x0C then [0x5C, cu CHR ''f'']
      else if c = 0x0A then [0x5C, cu CHR ''n'']
      else if c = 0x0D then [0x5C, cu CHR ''r'']
      else if c = 0x09 then [0x5C, cu CHR ''t'']
      else if c < 0x20 \<or> high_surrogate c \<or> low_surrogate c then u_escape c
      else [c])"

fun quote_units :: "jstring \<Rightarrow> jstring" where
  "quote_units [] = []"
| "quote_units [c] = escape_unit c"
| "quote_units (c # d # cs) =
     (if high_surrogate c \<and> low_surrogate d then c # d # quote_units cs
      else escape_unit c @ quote_units (d # cs))"

definition quote :: "jstring \<Rightarrow> jstring" where
  "quote s = [0x22] @ quote_units s @ [0x22]"

fun decimal :: "nat \<Rightarrow> jstring" where
  "decimal n = (if n < 10 then [of_nat (48 + n)] else decimal (n div 10) @ [of_nat (48 + n mod 10)])"

declare decimal.simps [simp del]

definition number_toString :: "int \<Rightarrow> jstring" where
  "number_toString i = (if i < 0 then cu CHR ''-'' # decimal (nat (- i)) else decimal (nat i))"

fun join :: "jstring \<Rightarrow> jstring list \<Rightarrow> jstring" where
  "join sep [] = []"
| "join sep [x] = x"
| "join sep (x # y # ys) = x @ sep @ join sep (y # ys)"

fun serialize :: "jstring \<Rightarrow> jsval \<Rightarrow> jstring"
  and serialize_elements :: "jstring \<Rightarrow> jsval list \<Rightarrow> jstring list"
  and serialize_members :: "jstring \<Rightarrow> (jstring \<times> jsval) list \<Rightarrow> jstring list"
where
  "serialize ind JUndefined = utf16 ''null''"
| "serialize ind JNull = utf16 ''null''"
| "serialize ind (JBool b) = (if b then utf16 ''true'' else utf16 ''false'')"
| "serialize ind (JNum n) = number_toString n"
| "serialize ind (JStr s) = quote s"
| "serialize ind (JArr xs) =
     (if xs = [] then utf16 ''[]''
      else utf16 ''['' @ [0x0A] @ ind @ utf16 ''  ''
           @ join (utf16 '','' @ [0x0A] @ ind @ utf16 ''  '') (serialize_elements (ind @ utf16 ''  '') xs)
           @ [0x0A] @ ind @ utf16 '']'')"
| "serialize ind (JObj kvs) =
     (if serialize_members (ind @ utf16 ''  '') kvs = [] then utf16 ''{}''
      else utf16 ''{'' @ [0x0A] @ ind @ utf16 ''  ''
           @ join (utf16 '','' @ [0x0A] @ ind @ utf16 ''  '') (serialize_members (ind @ utf16 ''  '') kvs)
           @ [0x0A] @ ind @ utf16 ''}'')"
| "serialize_elements ind [] = []"
| "serialize_elements ind (x # xs) = serialize ind x # serialize_elements ind xs"
| "serialize_members ind [] = []"
| "serialize_members ind ((k, v) # kvs) =
     (if v = JUndefined then serialize_members ind kvs
      else (quote k @ utf16 '': '' @ serialize ind v) # serialize_members ind kvs)"

definition json_stringify :: "jsval \<Rightarrow> jstring" where
  "json_stringify v = serialize [] v"

section \<open>The client: messages, requests and the outside world\<close>

text \<open>
  The content blocks of the \<open>ConversationMessage\<close> interface. A \<open>tool_use\<close> block has an
  id, a name and an input; a \<open>tool_result\<close> block has the id of the tool use it answers and
  a content text.
\<close>

datatype block =
    Text jstring
  | ToolUse jstring jstring jsval
  | ToolResult jstring jstring

datatype role = User | Assistant

record message =
  role :: role
  content :: "block list"

record tool =
  tool_name :: jstring
  description :: jstring
  input_schema :: jsval

record client =
  tools :: "tool list"
  modelId :: jstring
  inferenceProfileId :: "jstring option"
  conversationHistory :: "message list"
  sanitizedToOriginalToolName :: "jstring \<rightharpoonup> jstring"

text \<open>
  What \<open>InvokeModelCommand\<close> is given. The sampling parameters (\<open>top_k\<close>, \<open>top_p\<close>,
  \<open>temperature\<close>, \<open>stop_sequences\<close>) and \<open>anthropic_version\<close> are the same constants in
  every request and are left out; \<open>payload_tools\<close> is \<open>None\<close> when the payload has no
  \<open>tools\<close> key.
\<close>

record request =
  req_modelId :: jstring
  inferenceProfileArn :: "jstring option"
  max_tokens :: nat
  messages :: "message list"
  payload_tools :: "tool list option"

text \<open>
  The runtime and the two services the client talks to. The model and the MCP server are
  arbitrary: each answers a request from a state of its own, with a result or with a thrown
  error. \<open>JSON_stringify\<close> is \<open>JSON.stringify(v, null, 2)\<close>.
\<close>

record 'o runtime =
  JSON_parse :: "jstring \<Rightarrow> jsval option"
  JSON_stringify :: "jsval \<Rightarrow> jstring"
  bedrock :: "request \<Rightarrow> 'o \<Rightarrow> (js_error + block list) \<times> 'o"
  mcp :: "callee \<Rightarrow> jsval \<Rightarrow> 'o \<Rightarrow> (js_error + jsval) \<times> 'o"

text \<open>
  The world keeps, next to the state of the services, the requests the client has sent:
  every \<open>bedrockClient.send\<close> and every \<open>mcp.callTool\<close> is recorded in the order made.
\<close>

record 'o world =
  outside :: 'o
  invocations :: "request list"
  tool_calls :: "(callee \<times> jsval) list"

definition send :: "'o runtime \<Rightarrow> request \<Rightarrow> 'o world \<Rightarrow> (js_error + block list) \<times> 'o world" where
  "send rt req w =
     (case bedrock rt req (outside w) of
        (reply, out) \<Rightarrow> (reply, w\<lparr>outside := out, invocations := invocations w @ [req]\<rparr>))"

definition callTool :: "'o runtime \<Rightarrow> callee \<Rightarrow> jsval \<Rightarrow> 'o world \<Rightarrow> (js_error + jsval) \<times> 'o world" where
  "callTool rt nm args w =
     (case mcp rt nm args (outside w) of
        (reply, out) \<Rightarrow> (reply, w\<lparr>outside := out, tool_calls := tool_calls w @ [(nm, args)]\<rparr>))"

section \<open>processQuery\<close>

definition toolsForBedrock :: "client \<Rightarrow> tool list" where
  "toolsForBedrock c = map (\<lambda>t. t\<lparr>tool_name := sanitizeToolName (tool_name t)\<rparr>) (tools c)"

definition profile :: "client \<Rightarrow> jstring option" where
  "profile c = (case inferenceProfileId c of None \<Rightarrow> None | Some p \<Rightarrow> if p \<noteq> [] then Some p else None)"

definition first_request :: "client \<Rightarrow> message list \<Rightarrow> request" where
  "first_request c msgs =
     \<lparr>req_modelId = modelId c, inferenceProfileArn = profile c, max_tokens = 2000, messages = msgs,
      payload_tools = (if tools c \<noteq> [] then Some (toolsForBedrock c) else None)\<rparr>"

definition followUp_request :: "client \<Rightarrow> message list \<Rightarrow> request" where
  "followUp_request c msgs =
     \<lparr>req_modelId = modelId c, inferenceProfileArn = profile c, max_tokens = 1000, messages = msgs,
      payload_tools = Some (toolsForBedrock c)\<rparr>"

text \<open>
  The decoding of a tool result, from \<open>result.content\<close>: \<open>parsedResult\<close> starts as
  \<open>null\<close> and \<open>resultText\<close> as the empty string; a content that is a string, or an array
  whose first block has a string \<open>text\<close>, is given to \<open>JSON.parse\<close>, whose exception is
  caught and dropped; a truthy \<open>parsedResult\<close> is written back with \<open>JSON.stringify\<close>.
\<close>

fun first_text :: "jsval list \<Rightarrow> jstring option" where
  "first_text [] = None"
| "first_text (b # bs) = (case read b ''text'' of JStr t \<Rightarrow> Some t | _ \<Rightarrow> None)"

definition parsed_or_null :: "'o runtime \<Rightarrow> jstring \<Rightarrow> jsval" where
  "parsed_or_null rt s = (case JSON_parse rt s of None \<Rightarrow> JNull | Some v \<Rightarrow> v)"

definition parseToolResult :: "'o runtime \<Rightarrow> jsval \<Rightarrow> jsval \<times> jstring" where
  "parseToolResult rt result_content =
     (let parsedResult =
        (case result_content of
           JStr s \<Rightarrow> parsed_or_null rt s
         | JArr bs \<Rightarrow> (case first_text bs of None \<Rightarrow> JNull | Some t \<Rightarrow> parsed_or_null rt t)
         | _ \<Rightarrow> JNull)
      in (parsedResult, if truthy parsedResult then JSON_stringify rt parsedResult else []))"

text \<open>The inline error text of a failed tool call; \<open>0x274C\<close> is the cross mark.\<close>

definition tool_failed :: "jstring \<Rightarrow> js_error \<Rightarrow> jstring" where
  "tool_failed sanitizedToolName err =
     [0x274C] @ utf16 '' Tool '' @ sanitizedToolName @ utf16 '' failed: '' @ error_toString err"

text \<open>What the outer \<open>catch\<close> returns: \<open>Error: \<close> and \<open>error.message || error\<close>.\<close>

definition error_text :: "js_error \<Rightarrow> jstring" where
  "error_text e = utf16 ''Error: '' @ (if err_message e \<noteq> [] then err_message e else error_toString e)"

fun texts :: "block list \<Rightarrow> jstring list" where
  "texts [] = []"
| "texts (Text t # bs) = t # texts bs"
| "texts (b # bs) = texts bs"

definition followUpMessages :: "message \<Rightarrow> block \<Rightarrow> jstring \<Rightarrow> jstring \<Rightarrow> message list" where
  "followUpMessages userMessage toolUseContent toolUseId resultText =
     [userMessage,
      \<lparr>role = Assistant, content = [toolUseContent]\<rparr>,
      \<lparr>role = User, content = [ToolResult toolUseId resultText]\<rparr>]"

text \<open>
  The loop of the stateless branch over \<open>responseBody.content\<close>. A failed tool call returns
  its error text at once; an exception (of \<open>optimizeQuery\<close>, or of the follow-up request)
  leaves the loop for the outer \<open>catch\<close>. A block that is neither \<open>text\<close> nor \<open>tool_use\<close>
  is passed over.
\<close>

fun stateless_blocks ::
  "'o runtime \<Rightarrow> client \<Rightarrow> message \<Rightarrow> block list \<Rightarrow> jstring list \<Rightarrow> 'o world
    \<Rightarrow> (js_error + jstring) \<times> 'o world" where
  "stateless_blocks rt c userMessage [] finalText w = (Inr (join [0x0A] finalText), w)"
| "stateless_blocks rt c userMessage (Text t # rest) finalText w =
     stateless_blocks rt c userMessage rest (finalText @ [t]) w"
| "stateless_blocks rt c userMessage (ToolUse i n inp # rest) finalText w =
     (case optimizeQuery n inp of
        Inl e \<Rightarrow> (Inl e, w)
      | Inr (optimized_name, optimized_args) \<Rightarrow>
          (case callTool rt
                  (mcpToolName (sanitizedToOriginalToolName c) (sanitizeToolName optimized_name)
                     optimized_name)
                  optimized_args w of
             (Inl err, w1) \<Rightarrow> (Inr (tool_failed (sanitizeToolName optimized_name) err), w1)
           | (Inr result, w1) \<Rightarrow>
               (case send rt
                       (followUp_request c
                          (followUpMessages userMessage (ToolUse i n inp) i
                             (snd (parseToolResult rt result))))
                       w1 of
                  (Inl e, w2) \<Rightarrow> (Inl e, w2)
                | (Inr followUpBody, w2) \<Rightarrow>
                    stateless_blocks rt c userMessage rest (finalText @ texts followUpBody) w2)))"
| "stateless_blocks rt c userMessage (ToolResult i t # rest) finalText w =
     stateless_blocks rt c userMessage rest finalText w"

text \<open>
  The loop of the other branch. A failed tool call adds its error text to \<open>finalText\<close> and
  the loop goes on; the result text of a call is added when \<open>parsedResult\<close> is truthy.
\<close>

fun stateful_blocks ::
  "'o runtime \<Rightarrow> client \<Rightarrow> block list \<Rightarrow> jstring list \<Rightarrow> block list \<Rightarrow> 'o world
    \<Rightarrow> (js_error + jstring list \<times> block list) \<times> 'o world" where
  "stateful_blocks rt c [] finalText assistantContent w = (Inr (finalText, assistantContent), w)"
| "stateful_blocks rt c (Text t # rest) finalText assistantContent w =
     stateful_blocks rt c rest (finalText @ [t]) (assistantContent @ [Text t]) w"
| "stateful_blocks rt c (ToolUse i n inp # rest) finalText assistantContent w =
     (case optimizeQuery n inp of
        Inl e \<Rightarrow> (Inl e, w)
      | Inr (optimized_name, optimized_args) \<Rightarrow>
          (case callTool rt
                  (mcpToolName (sanitizedToOriginalToolName c) (sanitizeToolName optimized_name)
                     optimized_name)
                  optimized_args w of
             (Inl err, w1) \<Rightarrow>
               stateful_blocks rt c rest
                 (finalText @ [tool_failed (sanitizeToolName optimized_name) err]) assistantContent w1
           | (Inr result, w1) \<Rightarrow>
               stateful_blocks rt c rest
                 (if truthy (fst (parseToolResult rt result))
                  then finalText @ [snd (parseToolResult rt result)] else finalText)
                 (assistantContent @ [ToolUse i (sanitizeToolName optimized_name) optimized_args])
                 w1))"
| "stateful_blocks rt c (ToolResult i t # rest) finalText assistantContent w =
     stateful_blocks rt c rest finalText assistantContent w"

text \<open>
  \<open>processQuery(query, stateless)\<close>: the answer, the client and the world afterwards. The
  result is a string on every path, since the outer \<open>catch\<close> turns an exception into one.
\<close>

definition processQuery ::
  "'o runtime \<Rightarrow> client \<Rightarrow> jstring \<Rightarrow> bool \<Rightarrow> 'o world \<Rightarrow> jstring \<times> client \<times> 'o world" where
  "processQuery rt c query stateless w =
     (let userMessage = \<lparr>role = User, content = [Text query]\<rparr>;
          c1 = (if stateless then c
                else c\<lparr>conversationHistory := conversationHistory c @ [userMessage]\<rparr>);
          msgs = (if stateless then [userMessage] else conversationHistory c1)
      in case send rt (first_request c1 msgs) w of
           (Inl error, w1) \<Rightarrow> (error_text error, c1, w1)
         | (Inr responseBody, w1) \<Rightarrow>
             if stateless then
               (case stateless_blocks rt c1 userMessage responseBody [] w1 of
                  (Inl error, w2) \<Rightarrow> (error_text error, c1, w2)
                | (Inr answer, w2) \<Rightarrow> (answer, c1, w2))
             else
               (case stateful_blocks rt c1 responseBody [] [] w1 of
                  (Inl error, w2) \<Rightarrow> (error_text error, c1, w2)
                | (Inr (finalText, assistantContent), w2) \<Rightarrow> (join [0x0A] finalText, c1, w2)))"

text \<open>A run of stateless turns on one client, one after the other.\<close>

fun stateless_turns ::
  "'o runtime \<Rightarrow> client \<Rightarrow> jstring list \<Rightarrow> 'o world \<Rightarrow> jstring list \<times> client \<times> 'o world" where
  "stateless_turns rt c [] w = ([], c, w)"
| "stateless_turns rt c (query # queries) w =
     (case processQuery rt c query True w of
        (answer, c1, w1) \<Rightarrow>
          (case stateless_turns rt c1 queries w1 of
             (answers, c2, w2) \<Rightarrow> (answer # answers, c2, w2)))"

section \<open>processQuery of the compiled client\<close>

text \<open>
  The compiled client (\<open>build/index.js\<close>) has no stateless mode: every turn goes into the
  conversation history, and every executed tool is followed by a request that carries the
  whole history. \<open>conversationHistory.push({role: "assistant", content: assistantContent})\<close>
  stores the array \<open>assistantContent\<close> itself, which the loop goes on extending; such an
  entry is \<open>Shared\<close>, and \<open>history_of\<close> reads the history with the array as it is at that
  moment.
\<close>

datatype entry = Stored message | Shared

fun history_of :: "block list \<Rightarrow> entry list \<Rightarrow> message list" where
  "history_of assistantContent [] = []"
| "history_of assistantContent (Stored m # es) = m # history_of assistantContent es"
| "history_of assistantContent (Shared # es) =
     \<lparr>role = Assistant, content = assistantContent\<rparr> # history_of assistantContent es"

definition build_followUp_request :: "client \<Rightarrow> message list \<Rightarrow> request" where
  "build_followUp_request c msgs =
     \<lparr>req_modelId = modelId c, inferenceProfileArn = profile c, max_tokens = 1000, messages = msgs,
      payload_tools = (if tools c \<noteq> [] then Some (toolsForBedrock c) else None)\<rparr>"

fun build_blocks ::
  "'o runtime \<Rightarrow> client \<Rightarrow> block list \<Rightarrow> jstring list \<Rightarrow> block list \<Rightarrow> entry list \<Rightarrow> 'o world
    \<Rightarrow> (js_error + jstring list) \<times> block list \<times> entry list \<times> 'o world" where
  "build_blocks rt c [] finalText assistantContent history w =
     (Inr finalText, assistantContent, history, w)"
| "build_blocks rt c (Text t # rest) finalText assistantContent history w =
     build_blocks rt c rest (finalText @ [t]) (assistantContent @ [Text t]) history w"
| "build_blocks rt c (ToolUse i n inp # rest) finalText assistantContent history w =
     (case optimizeQuery n inp of
        Inl e \<Rightarrow> (Inl e, assistantContent, history, w)
      | Inr (optimized_name, optimized_args) \<Rightarrow>
          (case callTool rt
                  (mcpToolName (sanitizedToOriginalToolName c) (sanitizeToolName optimized_name)
                     optimized_name)
                  optimized_args w of
             (Inl err, w1) \<Rightarrow>
               build_blocks rt c rest
                 (finalText @ [tool_failed (sanitizeToolName optimized_name) err])
                 assistantContent history w1
           | (Inr result, w1) \<Rightarrow>
               (let assistantContent1 =
                      assistantContent @ [ToolUse i (sanitizeToolName optimized_name) optimized_args];
                    toolResultContent =
                      \<lparr>role = User, content = [ToolResult i (snd (parseToolResult rt result))]\<rparr>;
                    history1 = history @ [Shared, Stored toolResultContent]
                in case send rt (build_followUp_request c (history_of assistantContent1 history1)) w1 of
                     (Inl e, w2) \<Rightarrow> (Inl e, assistantContent1, history1, w2)
                   | (Inr followUpBody, w2) \<Rightarrow>
                       (case followUpBody of
                          Text interpretationText # others \<Rightarrow>
                            build_blocks rt c rest (finalText @ [interpretationText]) assistantContent1
                              (history1 @ [Stored \<lparr>role = Assistant, content = [Text interpretationText]\<rparr>])
                              w2
                        | _ \<Rightarrow> build_blocks rt c rest finalText assistantContent1 history1 w2))))"
| "build_blocks rt c (ToolResult i t # rest) finalText assistantContent history w =
     build_blocks rt c rest finalText assistantContent history w"

definition processQuery_build ::
  "'o runtime \<Rightarrow> client \<Rightarrow> jstring \<Rightarrow> 'o world \<Rightarrow> jstring \<times> client \<times> 'o world" where
  "processQuery_build rt c query w =
     (let userMessage = \<lparr>role = User, content = [Text query]\<rparr>;
          c1 = c\<lparr>conversationHistory := conversationHistory c @ [userMessage]\<rparr>
      in case send rt (first_request c1 (conversationHistory c1)) w of
           (Inl error, w1) \<Rightarrow> (error_text error, c1, w1)
         | (Inr responseBody, w1) \<Rightarrow>
             (case build_blocks rt c1 responseBody [] [] (map Stored (conversationHistory c1)) w1 of
                (outcome, assistantContent, history, w2) \<Rightarrow>
                  ((case outcome of
                      Inl error \<Rightarrow> error_text error
                    | Inr finalText \<Rightarrow> join [0x0A] finalText),
                   c1\<lparr>conversationHistory := history_of assistantContent history\<rparr>,
                   w2)))"

section \<open>The shape of a follow-up exchange\<close>

text \<open>
  \<open>follow_up_exchange\<close>: exactly a user message, an assistant message that carries one tool
  use, and a user message that carries the tool result of the same id.
  \<open>closing_exchange\<close>: the last two messages are an assistant message whose last block is a
  tool use and a user message that carries the tool result of the same id.
\<close>

fun same_id :: "block \<Rightarrow> block list \<Rightarrow> bool" where
  "same_id (ToolUse i n inp) [ToolResult j t] = (i = j)"
| "same_id b bs = False"

fun follow_up_exchange :: "message list \<Rightarrow> bool" where
  "follow_up_exchange [m1, m2, m3] =
     (role m1 = User \<and> role m2 = Assistant \<and> role m3 = User
      \<and> length (content m2) = 1 \<and> same_id (hd (content m2)) (content m3))"
| "follow_up_exchange ms = False"

definition closing_exchange :: "message list \<Rightarrow> bool" where
  "closing_exchange ms \<longleftrightarrow>
     2 \<le> length ms
     \<and> role (ms ! (length ms - 2)) = Assistant \<and> role (last ms) = User
     \<and> content (ms ! (length ms - 2)) \<noteq> []
     \<and> same_id (last (content (ms ! (length ms - 2)))) (content (last ms))"

section \<open>The HTTP handlers of POST /query\<close>

record response =
  status :: nat
  body :: jsval

definition error_reply :: "nat \<Rightarrow> jstring \<Rightarrow> response" where
  "error_reply code text = \<lparr>status = code, body = JObj [(utf16 ''error'', JStr text)]\<rparr>"

text \<open>\<open>typeof v === 'object'\<close>, which holds of \<open>null\<close> too.\<close>

fun typeof_object :: "jsval \<Rightarrow> bool" where
  "typeof_object JNull = True"
| "typeof_object (JArr xs) = True"
| "typeof_object (JObj kvs) = True"
| "typeof_object v = False"

text \<open>
  The handler of \<open>endpoint.js\<close>. \<open>mcpModule\<close> is the client module once it is imported
  (\<open>None\<close> before that), that is its function \<open>mcpProcessQuery\<close>, which answers or throws;
  \<open>req_body\<close> is the object that the JSON body parser leaves in \<open>req.body\<close>; \<open>now\<close> is the
  time stamp of the reply. The handler passes on every truthy \<open>query\<close>, string or not.
\<close>

definition endpoint_query ::
  "bool \<Rightarrow> (jsval \<Rightarrow> bool \<Rightarrow> 'w \<Rightarrow> (js_error + jsval) \<times> 'w) option \<Rightarrow> jstring
    \<Rightarrow> (jstring \<times> jsval) list \<Rightarrow> 'w \<Rightarrow> response \<times> 'w" where
  "endpoint_query mcpReady mcpModule now req_body w =
     (case mcpModule of
        None \<Rightarrow> (error_reply 503 (utf16 ''MCP client not ready.''), w)
      | Some mcpProcessQuery \<Rightarrow>
          if \<not> mcpReady then (error_reply 503 (utf16 ''MCP client not ready.''), w)
          else if \<not> truthy (own req_body ''query'')
          then (error_reply 400 (utf16 ''Query is required.''), w)
          else
            (case mcpProcessQuery (own req_body ''query'') True w of
               (Inl err, w1) \<Rightarrow> (error_reply 500 (err_message err), w1)
             | (Inr result, w1) \<Rightarrow>
                 if typeof_object result then
                   (case getprop result ''executionLogs'' of
                      Inl err \<Rightarrow> (error_reply 500 (err_message err), w1)
                    | Inr logs \<Rightarrow>
                        if truthy logs then (\<lparr>status = 200, body = result\<rparr>, w1)
                        else (\<lparr>status = 200,
                               body = JObj [(utf16 ''result'', result), (utf16 ''timestamp'', JStr now)]\<rparr>,
                              w1))
                 else (\<lparr>status = 200,
                        body = JObj [(utf16 ''result'', result), (utf16 ''timestamp'', JStr now)]\<rparr>,
                       w1)))"

text \<open>
  The handler that \<open>startEndpoint\<close> installs. It clears the conversation history first and
  then calls \<open>processQuery(query)\<close>, which answers a string on every path, so that the
  handler's own \<open>catch\<close> has nothing to catch.
\<close>

definition startEndpoint_query ::
  "'o runtime \<Rightarrow> client \<Rightarrow> (jstring \<times> jsval) list \<Rightarrow> 'o world \<Rightarrow> response \<times> client \<times> 'o world" where
  "startEndpoint_query rt mcpClient req_body w =
     (let c0 = mcpClient\<lparr>conversationHistory := []\<rparr>;
          invalid = error_reply 400 (utf16 (''Missing or invalid '' @ [CHR 0x27] @ ''query'' @ [CHR 0x27]
                      @ '' field in request body.''))
      in case own req_body ''query'' of
           JStr query \<Rightarrow>
             if query = [] then (invalid, c0, w)
             else
               (case processQuery rt c0 query False w of
                  (answer, c1, w1) \<Rightarrow>
                    (\<lparr>status = 200, body = JObj [(utf16 ''result'', JStr answer)]\<rparr>, c1, w1))
         | _ \<Rightarrow> (invalid, c0, w))"

section \<open>The DynamoDB server: queryTable and scanTable\<close>

text \<open>\<open>String(v)\<close>, which a template literal applies to the value it prints.\<close>

fun String_of :: "jsval \<Rightarrow> jstring"
  and String_elements :: "jsval list \<Rightarrow> jstring list" where
  "String_of JUndefined = utf16 ''undefined''"
| "String_of JNull = utf16 ''null''"
| "String_of (JBool b) = (if b then utf16 ''true'' else utf16 ''false'')"
| "String_of (JNum n) = number_toString n"
| "String_of (JStr s) = s"
| "String_of (JArr xs) = join (utf16 '','') (String_elements xs)"
| "String_of (JObj kvs) = utf16 ''[object Object]''"
| "String_elements [] = []"
| "String_elements (x # xs) =
     (if x = JUndefined \<or> x = JNull then [] else String_of x) # String_elements xs"

text \<open>
  A command is built from an input object. The server's runtime: \<open>JSON.parse\<close>,
  \<open>Number\<close>, the \<open>marshall\<close> and \<open>unmarshall\<close> of the AWS SDK, which answer or throw, and
  \<open>dynamoClient.send\<close>, which answers a response or throws from a state of its own. The
  world keeps the commands sent, in order.
\<close>

datatype command = QueryCommand jsval | ScanCommand jsval

record 'o backend =
  db_JSON_parse :: "jstring \<Rightarrow> jsval option"
  Number :: "jsval \<Rightarrow> jsval"
  marshall :: "jsval \<Rightarrow> js_error + jsval"
  unmarshall :: "jsval \<Rightarrow> js_error + jsval"
  dynamoClient :: "command \<Rightarrow> 'o \<Rightarrow> (js_error + jsval) \<times> 'o"

record 'o server =
  db :: 'o
  commands :: "command list"

definition dynamo_send :: "'o backend \<Rightarrow> command \<Rightarrow> 'o server \<Rightarrow> (js_error + jsval) \<times> 'o server" where
  "dynamo_send rt cmd w =
     (case dynamoClient rt cmd (db w) of
        (reply, out) \<Rightarrow> (reply, \<lparr>db = out, commands = commands w @ [cmd]\<rparr>))"

text \<open>
  \<open>Object.keys(v)\<close> with the values \<open>v[key]\<close>: the own properties of an object, the
  indices of an array or of a string, nothing for a number or a boolean, and a
  \<open>TypeError\<close> for \<open>undefined\<close> and \<open>null\<close>.
\<close>

fun indexed :: "nat \<Rightarrow> jsval list \<Rightarrow> (jstring \<times> jsval) list" where
  "indexed i [] = []"
| "indexed i (x # xs) = (decimal i, x) # indexed (Suc i) xs"

fun entries :: "jsval \<Rightarrow> js_error + (jstring \<times> jsval) list" where
  "entries (JObj kvs) = Inr kvs"
| "entries (JArr xs) = Inr (indexed 0 xs)"
| "entries (JStr s) = Inr (indexed 0 (map (\<lambda>c. JStr [c]) s))"
| "entries (JNum n) = Inr []"
| "entries (JBool b) = Inr []"
| "entries v = Inl (JsError (utf16 ''TypeError'') (utf16 ''Cannot convert undefined or null to object''))"

text \<open>
  The object that \<open>obj[key] = value\<close> builds from an empty one, key after key. The keys are
  those of an object, so none repeats; an assignment to \<open>__proto__\<close> sets the prototype
  and makes no property.
\<close>

definition assigned :: "(jstring \<times> jsval) list \<Rightarrow> (jstring \<times> jsval) list" where
  "assigned kvs = filter (\<lambda>(k, v). k \<noteq> utf16 ''__proto__'') kvs"

definition normalize_value :: "'o backend \<Rightarrow> jsval \<Rightarrow> jsval" where
  "normalize_value rt val =
     (if truthy val \<and> typeof_object val
         \<and> (truthy (read val ''N'') \<or> truthy (read val ''S'') \<or> truthy (read val ''B''))
      then (if read val ''N'' \<noteq> JUndefined then Number rt (read val ''N'')
            else if read val ''S'' \<noteq> JUndefined then read val ''S''
            else read val ''B'')
      else val)"

definition normalizeAttributeValues :: "'o backend \<Rightarrow> jsval \<Rightarrow> js_error + jsval" where
  "normalizeAttributeValues rt exprAttrVals =
     (if \<not> truthy exprAttrVals then Inr JUndefined
      else
        (case (case exprAttrVals of JStr s \<Rightarrow> db_JSON_parse rt s | v \<Rightarrow> Some v) of
           None \<Rightarrow> Inr JUndefined
         | Some vals \<Rightarrow>
             (case entries vals of
                Inl e \<Rightarrow> Inl e
              | Inr kvs \<Rightarrow>
                  Inr (JObj (assigned (map (\<lambda>(key, val). (key, normalize_value rt val)) kvs))))))"

definition invalid_name_key :: js_error where
  "invalid_name_key = JsError (utf16 ''Error'')
     (utf16 (''Invalid ExpressionAttributeNames key: '' @ [CHR 0x22] @ ''#'' @ [CHR 0x22]
        @ '' is not allowed. Use descriptive names like '' @ [CHR 0x22] @ ''#age'' @ [CHR 0x22]
        @ '', '' @ [CHR 0x22] @ ''#name'' @ [CHR 0x22] @ ''.''))"

fun strings :: "jsval list \<Rightarrow> jstring list" where
  "strings [] = []"
| "strings (JStr s # vs) = s # strings vs"
| "strings (v # vs) = strings vs"

definition cleanExpressionAttributeNames :: "jsval \<Rightarrow> jsval list \<Rightarrow> js_error + jsval" where
  "cleanExpressionAttributeNames expressionAttributeNames expressions =
     (if \<not> truthy expressionAttributeNames then Inr JUndefined
      else
        (case entries expressionAttributeNames of
           Inl e \<Rightarrow> Inl e
         | Inr kvs \<Rightarrow>
             if utf16 ''#'' \<in> set (map fst kvs) then Inl invalid_name_key
             else
               (let combinedExpression = join (utf16 '' '') (strings expressions);
                    cleanedNames = assigned (filter (\<lambda>(key, v). sublist key combinedExpression) kvs)
                in Inr (if cleanedNames \<noteq> [] then JObj cleanedNames else JUndefined))))"

definition marshalled :: "'o backend \<Rightarrow> jsval \<Rightarrow> js_error + jsval" where
  "marshalled rt normalizedValues =
     (if truthy normalizedValues then marshall rt normalizedValues else Inr JUndefined)"


definition scan_input :: "'o backend \<Rightarrow> jsval \<Rightarrow> js_error + jsval" where
  "scan_input rt params =
     (case getprop params ''expressionAttributeValues'' of
        Inl e \<Rightarrow> Inl e
      | Inr vals \<Rightarrow>
          (case normalizeAttributeValues rt vals of
             Inl e \<Rightarrow> Inl e
           | Inr normalizedValues \<Rightarrow>
               (case cleanExpressionAttributeNames (read params ''expressionAttributeNames'')
                       (filter truthy [read params ''filterExpression'']) of
                  Inl e \<Rightarrow> Inl e
                | Inr cleanedNames \<Rightarrow>
                    (case marshalled rt normalizedValues of
                       Inl e \<Rightarrow> Inl e
                     | Inr vs \<Rightarrow>
                         Inr (JObj [(utf16 ''TableName'', read params ''tableName''),
                                    (utf16 ''IndexName'', read params ''indexName''),
                                    (utf16 ''FilterExpression'', read params ''filterExpression''),
                                    (utf16 ''ExpressionAttributeValues'', vs),
                                    (utf16 ''ExpressionAttributeNames'', cleanedNames),
                                    (utf16 ''Limit'', read params ''limit'')])))))"

fun traverse :: "('a \<Rightarrow> js_error + 'b) \<Rightarrow> 'a list \<Rightarrow> js_error + 'b list" where
  "traverse f [] = Inr []"
| "traverse f (x # xs) =
     (case f x of
        Inl e \<Rightarrow> Inl e
      | Inr y \<Rightarrow> (case traverse f xs of Inl e \<Rightarrow> Inl e | Inr ys \<Rightarrow> Inr (y # ys)))"

definition items_of :: "'o backend \<Rightarrow> jsval \<Rightarrow> js_error + jsval" where
  "items_of rt response =
     (case getprop response ''Items'' of
        Inl e \<Rightarrow> Inl e
      | Inr Items \<Rightarrow>
          if \<not> truthy Items then Inr (JArr [])
          else
            (case Items of
               JArr xs \<Rightarrow> (case traverse (unmarshall rt) xs of Inl e \<Rightarrow> Inl e | Inr ys \<Rightarrow> Inr (JArr ys))
             | _ \<Rightarrow> Inl (JsError (utf16 ''TypeError'') (utf16 ''response.Items.map is not a function''))))"

definition on_table :: "jsval \<Rightarrow> jstring" where
  "on_table params =
     String_of (read params ''tableName'')
     @ (if truthy (read params ''indexName'')
        then utf16 '' (index: '' @ String_of (read params ''indexName'') @ utf16 '')''
        else [])"

definition executed :: "'o backend \<Rightarrow> string \<Rightarrow> jsval \<Rightarrow> jsval \<Rightarrow> js_error + jsval" where
  "executed rt operation params response =
     (case items_of rt response of
        Inl e \<Rightarrow> Inl e
      | Inr items \<Rightarrow>
          (case (if truthy (read response ''LastEvaluatedKey'')
                 then unmarshall rt (read response ''LastEvaluatedKey'') else Inr JNull) of
             Inl e \<Rightarrow> Inl e
           | Inr lastEvaluatedKey \<Rightarrow>
               Inr (JObj [(utf16 ''success'', JBool True),
                          (utf16 ''message'',
                             JStr (utf16 (operation @ '' executed successfully on table '') @ on_table params)),
                          (utf16 ''items'', items),
                          (utf16 ''count'', read response ''Count''),
                          (utf16 ''scannedCount'', read response ''ScannedCount''),
                          (utf16 ''lastEvaluatedKey'', lastEvaluatedKey),
                          (utf16 ''consumedCapacity'', read response ''ConsumedCapacity'')])))"

text \<open>\<open>error.message || error\<close> in a template literal.\<close>

definition reason :: "js_error \<Rightarrow> jstring" where
  "reason e = (if err_message e \<noteq> [] then err_message e else error_toString e)"

definition failed_to :: "string \<Rightarrow> js_error \<Rightarrow> jsval" where
  "failed_to operation error =
     JObj [(utf16 ''success'', JBool False),
           (utf16 ''message'', JStr (utf16 (''Failed to '' @ operation @ '' table: '') @ reason error)),
           (utf16 ''items'', JArr []),
           (utf16 ''errorType'', JStr (err_name error))]"

text \<open>
  \<open>scanTable\<close>: the body of its \<open>try\<close>, and the function, whose \<open>catch\<close> turns every
  exception into a result. It is given the type of a function that may throw, as
  \<open>queryTable\<close> treats it.
\<close>

definition scanTable_try :: "'o backend \<Rightarrow> jsval \<Rightarrow> 'o server \<Rightarrow> (js_error + jsval) \<times> 'o server" where
  "scanTable_try rt params w =
     (case scan_input rt params of
        Inl e \<Rightarrow> (Inl e, w)
      | Inr input \<Rightarrow>
          (case dynamo_send rt (ScanCommand input) w of
             (Inl e, w1) \<Rightarrow> (Inl e, w1)
           | (Inr response, w1) \<Rightarrow> (executed rt ''Scan'' params response, w1)))"

definition scanTable :: "'o backend \<Rightarrow> jsval \<Rightarrow> 'o server \<Rightarrow> (js_error + jsval) \<times> 'o server" where
  "scanTable rt params w =
     (case scanTable_try rt params w of
        (Inl error, w1) \<Rightarrow> (Inr (failed_to ''scan'' error), w1)
      | (Inr result, w1) \<Rightarrow> (Inr result, w1))"






section \<open>A scripted world for the examples\<close>

text \<open>
  To run the client on concrete inputs, the model and the MCP server answer from a script:
  the replies of the model and the results of the tool calls, each taken in order. The
  runtime functions are the JSON reader and writer above.
\<close>

type_synonym script = "(js_error + block list) list \<times> (js_error + jsval) list"

definition out_of_script :: js_error where
  "out_of_script = JsError (utf16 ''Error'') (utf16 ''no reply'')"

definition scripted :: "script runtime" where
  "scripted =
     \<lparr>JSON_parse = json_parse,
      JSON_stringify = json_stringify,
      bedrock = (\<lambda>req (replies, results).
        case replies of
          [] \<Rightarrow> (Inl out_of_script, (replies, results))
        | r # rs \<Rightarrow> (r, (rs, results))),
      mcp = (\<lambda>nm args (replies, results).
        case results of
          [] \<Rightarrow> (Inl out_of_script, (replies, results))
        | r # rs \<Rightarrow> (r, (replies, rs)))\<rparr>"

definition start :: "script \<Rightarrow> script world" where
  "start s = \<lparr>outside = s, invocations = [], tool_calls = []\<rparr>"

definition list_tables_tool :: tool where
  "list_tables_tool =
     \<lparr>tool_name = utf16 ''dynamodb:list_tables'', description = utf16 ''Lists tables'',
      input_schema = JObj [(utf16 ''type'', JStr (utf16 ''object''))]\<rparr>"

definition connected :: "message list \<Rightarrow> client" where
  "connected history =
     \<lparr>tools = [list_tables_tool],
      modelId = utf16 ''anthropic.claude-3-sonnet-20240229-v1:0'',
      inferenceProfileId = None,
      conversationHistory = history,
      sanitizedToOriginalToolName = [utf16 ''dynamodb_list_tables'' \<mapsto> utf16 ''dynamodb:list_tables'']\<rparr>"

text \<open>
  Two scripts. In the first the model answers with a text, a tool use and a text, and the
  tool call is rejected. In the second the model answers a first turn with a text, a second
  turn with a tool use, and the follow-up request with a text; the tool returns \<open>{}\<close>.
\<close>

definition failing_script :: script where
  "failing_script =
     ([Inr [Text (utf16 ''Checking''),
            ToolUse (utf16 ''t1'') (utf16 ''dynamodb_list_tables'') (JObj []),
            Text (utf16 ''Done'')]],
      [Inl (JsError (utf16 ''McpError'') (utf16 ''Connection closed''))])"

definition two_turns_script :: script where
  "two_turns_script =
     ([Inr [Text (utf16 ''Hello'')],
       Inr [ToolUse (utf16 ''t1'') (utf16 ''dynamodb_list_tables'') (JObj [])],
       Inr [Text (utf16 ''No tables'')]],
      [Inr (JStr (utf16 ''{}''))])"

text \<open>An orchestrator that answers \<open>ok\<close> and counts how often it is called.\<close>

definition counting :: "jsval \<Rightarrow> bool \<Rightarrow> nat \<Rightarrow> (js_error + jsval) \<times> nat" where
  "counting query stateless calls = (Inr (JStr (utf16 ''ok'')), Suc calls)"







section \<open>Properties of the name translator and the optimizer\<close>

lemma name_char_underscore: "name_char (cu CHR ''_'')"
  by (simp add: name_char_def)

lemma sanitizeToolName_clean: "\<forall>c\<in>set n. name_char c \<Longrightarrow> sanitizeToolName n = n"
  by (induction n) (simp_all add: sanitizeToolName_def)

lemma sanitizeToolName_chars: "\<forall>c\<in>set (sanitizeToolName n). name_char c"
  by (auto simp: sanitizeToolName_def name_char_underscore)

text \<open>
  C8. \<open>sanitizeToolName\<close> keeps the length of the name, keeps every code unit of the class
  \<open>[A-Za-z0-9_-]\<close> and puts an underscore in the place of every other one; applying it
  twice is applying it once; a name made of code units of the class only is returned as is.
\<close>

theorem sanitizeToolName_idempotent:
  "length (sanitizeToolName n) = length n
   \<and> (\<forall>i<length n. sanitizeToolName n ! i = (if name_char (n ! i) then n ! i else cu CHR ''_''))
   \<and> sanitizeToolName (sanitizeToolName n) = sanitizeToolName n
   \<and> ((\<forall>c\<in>set n. name_char c) \<longrightarrow> sanitizeToolName n = n)"
proof -
  have len: "length (sanitizeToolName n) = length n"
    by (simp add: sanitizeToolName_def)
  have pointwise:
    "\<forall>i<length n. sanitizeToolName n ! i = (if name_char (n ! i) then n ! i else cu CHR ''_'')"
    by (simp add: sanitizeToolName_def)
  have idem: "sanitizeToolName (sanitizeToolName n) = sanitizeToolName n"
    using sanitizeToolName_clean [OF sanitizeToolName_chars] .
  have clean: "(\<forall>c\<in>set n. name_char c) \<longrightarrow> sanitizeToolName n = n"
    using sanitizeToolName_clean by blast
  from len pointwise idem clean show ?thesis by blast
qed

theorem sanitizeToolName_idempotent_witness:
  "list_all name_char (utf16 ''list-Tables_2'')
   \<and> sanitizeToolName (utf16 ''list-Tables_2'') = utf16 ''list-Tables_2''
   \<and> (0::nat) < length (utf16 ''a:b'')
   \<and> sanitizeToolName (utf16 ''a:b'') ! 1 = cu CHR ''_''
   \<and> sanitizeToolName (sanitizeToolName (utf16 ''a:b'')) = utf16 ''a_b''"
proof -
  have clean: "\<forall>c\<in>set (utf16 ''list-Tables_2''). name_char c"
    by (simp add: utf16_def cu_def name_char_def)
  have colon: "\<not> name_char (utf16 ''a:b'' ! 1)"
    by (simp add: utf16_def cu_def name_char_def)
  have once: "sanitizeToolName (utf16 ''a:b'') = utf16 ''a_b''"
    by (simp add: sanitizeToolName_def utf16_def cu_def name_char_def)
  from clean colon once
    sanitizeToolName_idempotent [of "utf16 ''list-Tables_2''"]
    sanitizeToolName_idempotent [of "utf16 ''a:b''"]
  show ?thesis by (simp add: utf16_def list_all_iff)
qed

text \<open>
  C3. For arguments whose \<open>keyConditionExpression\<close> is a text that contains \<open>Age\<close> and
  neither \<open>Name\<close> nor \<open>#name\<close>, \<open>optimizeQuery\<close> on the query tool answers the scan tool,
  with that text as \<open>filterExpression\<close> and with \<open>tableName\<close>, \<open>expressionAttributeNames\<close>,
  \<open>expressionAttributeValues\<close> and \<open>limit\<close> as they were. Every other tool name, and every
  query whose key condition is missing, empty or a text outside the heuristic, comes back
  unchanged.
\<close>

theorem optimizeQuery_rewrite:
  "(own kvs ''keyConditionExpression'' = JStr k \<and> sublist (utf16 ''Age'') k
      \<and> \<not> sublist (utf16 ''Name'') k \<and> \<not> sublist (utf16 ''#name'') k \<longrightarrow>
      (\<exists>args. optimizeQuery (utf16 ''dynamodb:query_table'') (JObj kvs)
                 = Inr (utf16 ''dynamodb:scan_table'', args)
          \<and> read args ''filterExpression'' = JStr k
          \<and> read args ''tableName'' = own kvs ''tableName''
          \<and> read args ''expressionAttributeNames'' = own kvs ''expressionAttributeNames''
          \<and> read args ''expressionAttributeValues'' = own kvs ''expressionAttributeValues''
          \<and> read args ''limit'' = own kvs ''limit''))
   \<and> (toolName \<noteq> utf16 ''dynamodb:query_table'' \<longrightarrow>
        optimizeQuery toolName toolArgs = Inr (toolName, toolArgs))
   \<and> (\<not> truthy (own kvs ''keyConditionExpression'') \<longrightarrow>
        optimizeQuery (utf16 ''dynamodb:query_table'') (JObj kvs)
          = Inr (utf16 ''dynamodb:query_table'', JObj kvs))
   \<and> (own kvs ''keyConditionExpression'' = JStr k
        \<and> \<not> (sublist (utf16 ''Age'') k \<and> \<not> sublist (utf16 ''Name'') k
               \<and> \<not> sublist (utf16 ''#name'') k) \<longrightarrow>
        optimizeQuery (utf16 ''dynamodb:query_table'') (JObj kvs)
          = Inr (utf16 ''dynamodb:query_table'', JObj kvs))"
proof (intro conjI impI)
  assume h: "own kvs ''keyConditionExpression'' = JStr k \<and> sublist (utf16 ''Age'') k
      \<and> \<not> sublist (utf16 ''Name'') k \<and> \<not> sublist (utf16 ''#name'') k"
  then have "k \<noteq> []"
    by (auto simp: utf16_def)
  with h have run: "optimizeQuery (utf16 ''dynamodb:query_table'') (JObj kvs)
      = Inr (utf16 ''dynamodb:scan_table'',
             scan_args (own kvs ''tableName'') (JStr k) (own kvs ''expressionAttributeNames'')
               (own kvs ''expressionAttributeValues'') (own kvs ''limit''))"
    by (simp add: optimizeQuery_def read_def)
  have fields:
    "read (scan_args a b c d e) ''filterExpression'' = b"
    "read (scan_args a b c d e) ''tableName'' = a"
    "read (scan_args a b c d e) ''expressionAttributeNames'' = c"
    "read (scan_args a b c d e) ''expressionAttributeValues'' = d"
    "read (scan_args a b c d e) ''limit'' = e" for a b c d e
    by (simp_all add: read_def scan_args_def own_def utf16_def cu_def)
  from run fields
  show "\<exists>args. optimizeQuery (utf16 ''dynamodb:query_table'') (JObj kvs)
                 = Inr (utf16 ''dynamodb:scan_table'', args)
          \<and> read args ''filterExpression'' = JStr k
          \<and> read args ''tableName'' = own kvs ''tableName''
          \<and> read args ''expressionAttributeNames'' = own kvs ''expressionAttributeNames''
          \<and> read args ''expressionAttributeValues'' = own kvs ''expressionAttributeValues''
          \<and> read args ''limit'' = own kvs ''limit''"
    by simp
next
  assume "toolName \<noteq> utf16 ''dynamodb:query_table''"
  then show "optimizeQuery toolName toolArgs = Inr (toolName, toolArgs)"
    by (simp add: optimizeQuery_def)
next
  assume "\<not> truthy (own kvs ''keyConditionExpression'')"
  then show "optimizeQuery (utf16 ''dynamodb:query_table'') (JObj kvs)
          = Inr (utf16 ''dynamodb:query_table'', JObj kvs)"
    by (simp add: optimizeQuery_def utf16_def)
next
  assume h: "own kvs ''keyConditionExpression'' = JStr k
        \<and> \<not> (sublist (utf16 ''Age'') k \<and> \<not> sublist (utf16 ''Name'') k
               \<and> \<not> sublist (utf16 ''#name'') k)"
  show "optimizeQuery (utf16 ''dynamodb:query_table'') (JObj kvs)
          = Inr (utf16 ''dynamodb:query_table'', JObj kvs)"
  proof (cases "k = []")
    case True
    with h show ?thesis by (simp add: optimizeQuery_def utf16_def)
  next
    case False
    with h show ?thesis by (auto simp: optimizeQuery_def)
  qed
qed

theorem optimizeQuery_rewrite_witness:
  "optimizeQuery (utf16 ''dynamodb:query_table'')
     (JObj [(utf16 ''tableName'', JStr (utf16 ''Users'')),
            (utf16 ''keyConditionExpression'', JStr (utf16 ''Age > :a'')),
            (utf16 ''limit'', JNum 10)])
   = Inr (utf16 ''dynamodb:scan_table'',
          JObj [(utf16 ''tableName'', JStr (utf16 ''Users'')),
                (utf16 ''filterExpression'', JStr (utf16 ''Age > :a'')),
                (utf16 ''expressionAttributeNames'', JUndefined),
                (utf16 ''expressionAttributeValues'', JUndefined),
                (utf16 ''limit'', JNum 10)])
   \<and> optimizeQuery (utf16 ''dynamodb:list_tables'') (JObj []) = Inr (utf16 ''dynamodb:list_tables'', JObj [])
   \<and> optimizeQuery (utf16 ''dynamodb:query_table'') (JObj [(utf16 ''tableName'', JStr (utf16 ''Users''))])
       = Inr (utf16 ''dynamodb:query_table'', JObj [(utf16 ''tableName'', JStr (utf16 ''Users''))])
   \<and> optimizeQuery (utf16 ''dynamodb:query_table'')
         (JObj [(utf16 ''keyConditionExpression'', JStr (utf16 ''#name = :n AND Age > :a''))])
       = Inr (utf16 ''dynamodb:query_table'',
              JObj [(utf16 ''keyConditionExpression'', JStr (utf16 ''#name = :n AND Age > :a''))])"
proof -
  let ?q = "[(utf16 ''tableName'', JStr (utf16 ''Users'')),
             (utf16 ''keyConditionExpression'', JStr (utf16 ''Age > :a'')),
             (utf16 ''limit'', JNum 10)]"
  let ?t = "[(utf16 ''tableName'', JStr (utf16 ''Users''))]"
  let ?n = "[(utf16 ''keyConditionExpression'', JStr (utf16 ''#name = :n AND Age > :a''))]"
  have age: "own ?q ''keyConditionExpression'' = JStr (utf16 ''Age > :a'')
      \<and> sublist (utf16 ''Age'') (utf16 ''Age > :a'')
      \<and> \<not> sublist (utf16 ''Name'') (utf16 ''Age > :a'')
      \<and> \<not> sublist (utf16 ''#name'') (utf16 ''Age > :a'')"
    by code_simp
  have other: "utf16 ''dynamodb:list_tables'' \<noteq> utf16 ''dynamodb:query_table''"
    by code_simp
  have none: "\<not> truthy (own ?t ''keyConditionExpression'')"
    by code_simp
  have named: "own ?n ''keyConditionExpression'' = JStr (utf16 ''#name = :n AND Age > :a'')
      \<and> \<not> (sublist (utf16 ''Age'') (utf16 ''#name = :n AND Age > :a'')
             \<and> \<not> sublist (utf16 ''Name'') (utf16 ''#name = :n AND Age > :a'')
             \<and> \<not> sublist (utf16 ''#name'') (utf16 ''#name = :n AND Age > :a''))"
    by code_simp
  have scan: "optimizeQuery (utf16 ''dynamodb:query_table'') (JObj ?q)
      = Inr (utf16 ''dynamodb:scan_table'',
          JObj [(utf16 ''tableName'', JStr (utf16 ''Users'')),
                (utf16 ''filterExpression'', JStr (utf16 ''Age > :a'')),
                (utf16 ''expressionAttributeNames'', JUndefined),
                (utf16 ''expressionAttributeValues'', JUndefined),
                (utf16 ''limit'', JNum 10)])"
    by code_simp
  from scan
    optimizeQuery_rewrite [of ?q "utf16 ''Age > :a''" "utf16 ''dynamodb:list_tables''" "JObj []"]
    optimizeQuery_rewrite [of ?t "[]" "utf16 ''dynamodb:list_tables''" "JObj []"]
    optimizeQuery_rewrite [of ?n "utf16 ''#name = :n AND Age > :a''" "utf16 ''dynamodb:list_tables''" "JObj []"]
    age other none named
  show ?thesis by blast
qed

text \<open>
  C5. A tool name that Bedrock accepts as it is and that the client never registered is meant
  to be passed on unchanged. \<open>toString\<close> is such a name, and for it the lookup answers the
  function that every object inherits, not the name.
\<close>

theorem mcpToolName_inherited_key:
  "sanitizeToolName (utf16 ''toString'') = utf16 ''toString''
   \<and> Map.empty (sanitizeToolName (utf16 ''toString'')) = (None :: jstring option)
   \<and> mcpToolName Map.empty (sanitizeToolName (utf16 ''toString'')) (utf16 ''toString'')
       = PrototypeMember (utf16 ''toString'')
   \<and> mcpToolName Map.empty (sanitizeToolName (utf16 ''toString'')) (utf16 ''toString'')
       \<noteq> ToolName (utf16 ''toString'')"
proof -
  have same: "sanitizeToolName (utf16 ''toString'') = utf16 ''toString''"
    by (simp add: sanitizeToolName_def utf16_def cu_def name_char_def)
  have inherited: "utf16 ''toString'' \<in> set Object_prototype_keys"
    by (simp add: Object_prototype_keys_def)
  from same inherited show ?thesis
    by (simp add: mcpToolName_def)
qed

text \<open>Every other unregistered name of the class is passed on unchanged.\<close>

lemma mcpToolName_unregistered:
  assumes "list_all name_char n" and "mapping (sanitizeToolName n) = None"
    and "n \<notin> set Object_prototype_keys"
  shows "mcpToolName mapping (sanitizeToolName n) n = ToolName n"
proof -
  from assms(1) have "sanitizeToolName n = n"
    by (simp add: sanitizeToolName_clean list_all_iff)
  with assms(2,3) show ?thesis
    by (simp add: mcpToolName_def)
qed

section \<open>Properties of the result decoding\<close>

lemma parseToolResult_string:
  "parseToolResult rt (JStr s) =
     (parsed_or_null rt s,
      if truthy (parsed_or_null rt s) then JSON_stringify rt (parsed_or_null rt s) else [])"
  by (simp add: parseToolResult_def Let_def)

lemma parseToolResult_first_block:
  "read b ''text'' = JStr s \<Longrightarrow> parseToolResult rt (JArr (b # bs)) = parseToolResult rt (JStr s)"
  by (simp add: parseToolResult_def Let_def)

text \<open>
  C2, as the code has it. The decoding is a total function: it never raises. For a content
  that is a string \<open>s\<close>, and for a content whose first block has the string \<open>s\<close> as its
  \<open>text\<close>: when \<open>JSON.parse\<close> fails, the structured value is absent (\<open>null\<close>) and the
  display text is the empty string; when it succeeds with a truthy value, that value is the
  structured value and the display text is its pretty-printed serialization.
\<close>

theorem parseToolResult_decodes:
  "(JSON_parse rt s = None \<longrightarrow> parseToolResult rt (JStr s) = (JNull, []))
   \<and> (JSON_parse rt s = Some v \<and> truthy v \<longrightarrow>
        parseToolResult rt (JStr s) = (v, JSON_stringify rt v))
   \<and> (read b ''text'' = JStr s \<longrightarrow>
        parseToolResult rt (JArr (b # bs)) = parseToolResult rt (JStr s))"
  by (simp add: parseToolResult_string parseToolResult_first_block parsed_or_null_def)

theorem parseToolResult_decodes_witness:
  "json_parse (utf16 ''not json'') = None
   \<and> parseToolResult scripted (JStr (utf16 ''not json'')) = (JNull, [])
   \<and> json_parse (utf16 ''[7]'') = Some (JArr [JNum 7])
   \<and> parseToolResult scripted (JStr (utf16 ''[7]''))
       = (JArr [JNum 7], utf16 ''['' @ [0x0A] @ utf16 ''  7'' @ [0x0A] @ utf16 '']'')
   \<and> parseToolResult scripted
         (JArr [JObj [(utf16 ''type'', JStr (utf16 ''text'')), (utf16 ''text'', JStr (utf16 ''[7]''))]])
       = parseToolResult scripted (JStr (utf16 ''[7]''))"
proof -
  have fails: "JSON_parse scripted (utf16 ''not json'') = None"
    by (simp add: scripted_def) code_simp
  have reads: "JSON_parse scripted (utf16 ''[7]'') = Some (JArr [JNum 7])"
    by (simp add: scripted_def) code_simp
  have writes: "JSON_stringify scripted (JArr [JNum 7])
      = utf16 ''['' @ [0x0A] @ utf16 ''  7'' @ [0x0A] @ utf16 '']''"
    by (simp add: scripted_def) code_simp
  have block: "read (JObj [(utf16 ''type'', JStr (utf16 ''text'')), (utf16 ''text'', JStr (utf16 ''[7]''))])
                 ''text'' = JStr (utf16 ''[7]'')"
    by code_simp
  from fails reads writes block
    parseToolResult_decodes [of scripted "utf16 ''not json''" JNull
      "JObj [(utf16 ''type'', JStr (utf16 ''text'')), (utf16 ''text'', JStr (utf16 ''[7]''))]" "[]"]
    parseToolResult_decodes [of scripted "utf16 ''[7]''" "JArr [JNum 7]"
      "JObj [(utf16 ''type'', JStr (utf16 ''text'')), (utf16 ''text'', JStr (utf16 ''[7]''))]" "[]"]
  show ?thesis
    by (simp add: scripted_def)
qed

text \<open>
  The claim as it stands fails twice: the text \<open>not json\<close> is not JSON and its display text is
  empty, not that text; the text \<open>null\<close> is JSON and its display text is empty, not the
  serialization \<open>null\<close>.
\<close>

theorem parseToolResult_raw_text_counterexample:
  "json_parse (utf16 ''not json'') = None
   \<and> snd (parseToolResult scripted (JStr (utf16 ''not json''))) = []
   \<and> snd (parseToolResult scripted (JStr (utf16 ''not json''))) \<noteq> utf16 ''not json''
   \<and> json_parse (utf16 ''null'') = Some JNull
   \<and> json_stringify JNull = utf16 ''null''
   \<and> snd (parseToolResult scripted (JStr (utf16 ''null''))) = []
   \<and> snd (parseToolResult scripted (JStr (utf16 ''null''))) \<noteq> json_stringify JNull"
proof -
  have fails: "json_parse (utf16 ''not json'') = None"
    by code_simp
  have reads: "json_parse (utf16 ''null'') = Some JNull"
    by code_simp
  have writes: "json_stringify JNull = utf16 ''null''"
    by code_simp
  have differ: "([] :: jstring) \<noteq> utf16 ''not json''" "([] :: jstring) \<noteq> utf16 ''null''"
    by (simp_all add: utf16_def)
  from fails reads writes differ show ?thesis
    by (simp add: parseToolResult_string parsed_or_null_def scripted_def)
qed

text \<open>
  C10. When the content string parses to a falsy value, the decoding gives what it gives
  when parsing fails: the display text is empty, no serialization is made, and
  \<open>parsedResult\<close> is falsy, which is all that the turn looks at; the loop of the stateful
  path then goes on with \<open>finalText\<close> as it was.
\<close>

theorem falsy_result_as_parse_failure:
  assumes "JSON_parse rt s = Some v" and "\<not> truthy v"
  shows "snd (parseToolResult rt (JStr s)) = []
    \<and> \<not> truthy (fst (parseToolResult rt (JStr s)))
    \<and> snd (parseToolResult rt (JStr s))
        = snd (parseToolResult (rt\<lparr>JSON_parse := \<lambda>t. None\<rparr>) (JStr s))
    \<and> truthy (fst (parseToolResult rt (JStr s)))
        = truthy (fst (parseToolResult (rt\<lparr>JSON_parse := \<lambda>t. None\<rparr>) (JStr s)))
    \<and> (optimizeQuery n inp = Inr (optimized_name, optimized_args)
        \<and> callTool rt
             (mcpToolName (sanitizedToOriginalToolName c) (sanitizeToolName optimized_name)
                optimized_name)
             optimized_args w = (Inr (JStr s), w1) \<longrightarrow>
        stateful_blocks rt c (ToolUse i n inp # rest) finalText assistantContent w
          = stateful_blocks rt c rest finalText
              (assistantContent @ [ToolUse i (sanitizeToolName optimized_name) optimized_args]) w1)"
  using assms
  by (simp add: parseToolResult_string parsed_or_null_def)

theorem falsy_result_as_parse_failure_witness:
  "json_parse (utf16 ''null'') = Some JNull
   \<and> json_parse (utf16 ''false'') = Some (JBool False)
   \<and> json_parse (utf16 ''0'') = Some (JNum 0)
   \<and> json_parse [0x22, 0x22] = Some (JStr [])
   \<and> snd (parseToolResult scripted (JStr (utf16 ''null''))) = []
   \<and> snd (parseToolResult scripted (JStr (utf16 ''false''))) = []
   \<and> snd (parseToolResult scripted (JStr (utf16 ''0''))) = []
   \<and> snd (parseToolResult scripted (JStr [0x22, 0x22])) = []
   \<and> stateful_blocks scripted (connected [])
         [ToolUse (utf16 ''t1'') (utf16 ''dynamodb_list_tables'') (JObj [])] [utf16 ''hi''] []
         (start ([], [Inr (JStr (utf16 ''false''))]))
       = stateful_blocks scripted (connected []) [] [utf16 ''hi'']
           [ToolUse (utf16 ''t1'') (utf16 ''dynamodb_list_tables'') (JObj [])]
           \<lparr>outside = ([], []), invocations = [],
            tool_calls = [(ToolName (utf16 ''dynamodb:list_tables''), JObj [])]\<rparr>"
proof -
  have null: "JSON_parse scripted (utf16 ''null'') = Some JNull"
    by (simp add: scripted_def) code_simp
  have false: "JSON_parse scripted (utf16 ''false'') = Some (JBool False)"
    by (simp add: scripted_def) code_simp
  have zero: "JSON_parse scripted (utf16 ''0'') = Some (JNum 0)"
    by (simp add: scripted_def) code_simp
  have empty: "JSON_parse scripted [0x22, 0x22] = Some (JStr [])"
    by (simp add: scripted_def) code_simp
  have unchanged: "optimizeQuery (utf16 ''dynamodb_list_tables'') (JObj [])
      = Inr (utf16 ''dynamodb_list_tables'', JObj [])"
    by code_simp
  have call: "callTool scripted
      (mcpToolName (sanitizedToOriginalToolName (connected []))
         (sanitizeToolName (utf16 ''dynamodb_list_tables'')) (utf16 ''dynamodb_list_tables''))
      (JObj []) (start ([], [Inr (JStr (utf16 ''false''))]))
    = (Inr (JStr (utf16 ''false'')),
       \<lparr>outside = ([], []), invocations = [],
        tool_calls = [(ToolName (utf16 ''dynamodb:list_tables''), JObj [])]\<rparr>)"
    by code_simp
  have same: "sanitizeToolName (utf16 ''dynamodb_list_tables'') = utf16 ''dynamodb_list_tables''"
    by code_simp
  note loop = falsy_result_as_parse_failure [OF false, of "utf16 ''dynamodb_list_tables''" "JObj []"
      "utf16 ''dynamodb_list_tables''" "JObj []" "connected []" "start ([], [Inr (JStr (utf16 ''false''))])"
      "\<lparr>outside = ([], []), invocations = [],
        tool_calls = [(ToolName (utf16 ''dynamodb:list_tables''), JObj [])]\<rparr>"
      "utf16 ''t1''" "[]" "[utf16 ''hi'']" "[]"]
  from null false zero empty unchanged call same loop
    falsy_result_as_parse_failure [OF null] falsy_result_as_parse_failure [OF zero]
    falsy_result_as_parse_failure [OF empty]
  show ?thesis
    by (simp add: scripted_def)
qed

section \<open>Properties of a turn\<close>

lemma send_invocations: "send rt req w = (r, w') \<Longrightarrow> invocations w' = invocations w @ [req]"
  by (auto simp: send_def split: prod.splits)

lemma callTool_invocations: "callTool rt nm args w = (r, w') \<Longrightarrow> invocations w' = invocations w"
  by (auto simp: callTool_def split: prod.splits)

lemma follow_up_exchange_followUpMessages:
  "role um = User \<Longrightarrow> follow_up_exchange (followUpMessages um (ToolUse i n inp) i t)"
  by (simp add: followUpMessages_def)

lemma stateless_blocks_invocations:
  "stateless_blocks rt c um blocks ft w = (r, w') \<Longrightarrow> role um = User \<Longrightarrow>
   \<exists>new. invocations w' = invocations w @ new
     \<and> list_all (\<lambda>req. follow_up_exchange (messages req)) new"
proof (induction rt c um blocks ft w rule: stateless_blocks.induct)
  case (1 rt c userMessage finalText w)
  then show ?case by simp
next
  case (2 rt c userMessage t rest finalText w)
  then show ?case by simp
next
  case (3 rt c userMessage i n inp rest finalText w)
  show ?case
  proof (cases "optimizeQuery n inp")
    case (Inl e)
    with 3 show ?thesis by simp
  next
    case (Inr p)
    obtain oname oargs where p: "p = (oname, oargs)" by (cases p)
    obtain res w1 where call: "callTool rt
        (mcpToolName (sanitizedToOriginalToolName c) (sanitizeToolName oname) oname) oargs w = (res, w1)"
      by (cases "callTool rt
        (mcpToolName (sanitizedToOriginalToolName c) (sanitizeToolName oname) oname) oargs w")
    have w1: "invocations w1 = invocations w"
      using callTool_invocations [OF call] .
    show ?thesis
    proof (cases res)
      case (Inl err)
      with 3(2) Inr p call w1 show ?thesis by simp
    next
      case result: (Inr result)
      let ?req = "followUp_request c
          (followUpMessages userMessage (ToolUse i n inp) i (snd (parseToolResult rt result)))"
      obtain reply w2 where snd: "send rt ?req w1 = (reply, w2)"
        by (cases "send rt ?req w1")
      have w2: "invocations w2 = invocations w @ [?req]"
        using send_invocations [OF snd] w1 by simp
      have ok: "follow_up_exchange (messages ?req)"
        using 3(3) by (simp add: followUp_request_def follow_up_exchange_followUpMessages)
      show ?thesis
      proof (cases reply)
        case (Inl e)
        with 3(2) Inr p call result snd have "w' = w2" by simp
        with w2 ok show ?thesis by simp
      next
        case body: (Inr followUpBody)
        with 3(2) Inr p call result snd
        have run: "stateless_blocks rt c userMessage rest (finalText @ texts followUpBody) w2 = (r, w')"
          by simp
        from 3(1) [OF Inr p [symmetric] call [symmetric] result snd [symmetric] body run 3(3)]
        obtain new where "invocations w' = invocations w2 @ new"
          and "list_all (\<lambda>req. follow_up_exchange (messages req)) new"
          by blast
        with w2 ok show ?thesis by simp
      qed
    qed
  qed
next
  case (4 rt c userMessage i t rest finalText w)
  then show ?case by simp
qed

lemma stateless_blocks_history:
  "stateless_blocks rt (c\<lparr>conversationHistory := h\<rparr>) um blocks ft w
     = stateless_blocks rt c um blocks ft w"
  by (induction rt c um blocks ft w rule: stateless_blocks.induct)
     (auto simp: followUp_request_def profile_def toolsForBedrock_def split: sum.splits prod.splits)

lemma processQuery_stateless_client: "fst (snd (processQuery rt c q True w)) = c"
  by (simp add: processQuery_def Let_def split: prod.splits sum.splits)

lemma stateless_turns_client: "fst (snd (stateless_turns rt c queries w)) = c"
proof (induction queries arbitrary: c w)
  case Nil
  show ?case by simp
next
  case (Cons q queries)
  obtain r c1 w1 where one: "processQuery rt c q True w = (r, c1, w1)"
    by (cases "processQuery rt c q True w")
  with processQuery_stateless_client [of rt c q w] have "c1 = c" by simp
  with one Cons [of c w1] show ?case
    by (auto split: prod.splits)
qed

lemma processQuery_stateless_history:
  "processQuery rt (c\<lparr>conversationHistory := h\<rparr>) q True w
     = (case processQuery rt c q True w of (r, c', w') \<Rightarrow> (r, c'\<lparr>conversationHistory := h\<rparr>, w'))"
  by (simp add: processQuery_def Let_def stateless_blocks_history first_request_def profile_def
        toolsForBedrock_def split: prod.splits sum.splits)

lemma processQuery_stateless_invocations:
  "\<exists>new. invocations (snd (snd (processQuery rt c q True w)))
      = invocations w @ first_request c [\<lparr>role = User, content = [Text q]\<rparr>] # new
    \<and> list_all (\<lambda>req. follow_up_exchange (messages req)) new"
proof -
  let ?um = "\<lparr>role = User, content = [Text q]\<rparr>"
  obtain reply w1 where first: "send rt (first_request c [?um]) w = (reply, w1)"
    by (cases "send rt (first_request c [?um]) w")
  have w1: "invocations w1 = invocations w @ [first_request c [?um]]"
    using send_invocations [OF first] .
  show ?thesis
  proof (cases reply)
    case (Inl e)
    with first w1 show ?thesis by (simp add: processQuery_def)
  next
    case (Inr body)
    obtain r w2 where loop: "stateless_blocks rt c ?um body [] w1 = (r, w2)"
      by (cases "stateless_blocks rt c ?um body [] w1")
    from stateless_blocks_invocations [OF loop]
    obtain new where "invocations w2 = invocations w1 @ new"
      and "list_all (\<lambda>req. follow_up_exchange (messages req)) new"
      by auto
    with first w1 Inr loop show ?thesis
      by (cases r) (simp_all add: processQuery_def)
  qed
qed

lemma history_of_append:
  "history_of ac (h @ es) = history_of ac h @ history_of ac es"
  by (induction ac h rule: history_of.induct) simp_all

lemma history_of_Stored: "history_of ac (map Stored ms) = ms"
  by (induction ms) simp_all

lemma closing_exchange_append:
  "closing_exchange (ms @ [\<lparr>role = Assistant, content = ac @ [ToolUse i n inp]\<rparr>,
                          \<lparr>role = User, content = [ToolResult i t]\<rparr>])"
  by (simp add: closing_exchange_def nth_append)

lemma build_blocks_invocations:
  "build_blocks rt c blocks ft ac h w = (r, ac', h', w') \<Longrightarrow> prefix (map Stored base) h \<Longrightarrow>
   \<exists>new. invocations w' = invocations w @ new
     \<and> list_all (\<lambda>req. closing_exchange (messages req) \<and> prefix base (messages req)) new"
proof (induction rt c blocks ft ac h w rule: build_blocks.induct)
  case (1 rt c finalText assistantContent history w)
  then show ?case by simp
next
  case (2 rt c t rest finalText assistantContent history w)
  then show ?case by simp
next
  case (3 rt c i n inp rest finalText assistantContent history w)
  show ?case
  proof (cases "optimizeQuery n inp")
    case (Inl e)
    with "3.prems" show ?thesis by simp
  next
    case (Inr p)
    obtain oname oargs where p: "p = (oname, oargs)" by (cases p)
    obtain res w1 where call: "callTool rt
        (mcpToolName (sanitizedToOriginalToolName c) (sanitizeToolName oname) oname) oargs w = (res, w1)"
      by (cases "callTool rt
        (mcpToolName (sanitizedToOriginalToolName c) (sanitizeToolName oname) oname) oargs w")
    have w1: "invocations w1 = invocations w"
      using callTool_invocations [OF call] .
    show ?thesis
    proof (cases res)
      case (Inl err)
      with "3.prems" Inr p call
      have run: "build_blocks rt c rest (finalText @ [tool_failed (sanitizeToolName oname) err])
                   assistantContent history w1 = (r, ac', h', w')"
        by simp
      from "3.IH"(1) [OF Inr p [symmetric] call [symmetric] Inl run "3.prems"(2)] w1
      show ?thesis by simp
    next
      case result: (Inr result)
      let ?ac1 = "assistantContent @ [ToolUse i (sanitizeToolName oname) oargs]"
      let ?tr = "\<lparr>role = User, content = [ToolResult i (snd (parseToolResult rt result))]\<rparr>"
      let ?h1 = "history @ [Shared, Stored ?tr]"
      let ?req = "build_followUp_request c (history_of ?ac1 ?h1)"
      obtain reply w2 where snd: "send rt ?req w1 = (reply, w2)"
        by (cases "send rt ?req w1")
      have w2: "invocations w2 = invocations w @ [?req]"
        using send_invocations [OF snd] w1 by simp
      from "3.prems"(2) obtain tl where hist: "history = map Stored base @ tl"
        by (auto simp: prefix_def)
      have ok: "closing_exchange (messages ?req) \<and> prefix base (messages ?req)"
        using closing_exchange_append [of "history_of ?ac1 history" assistantContent i
            "sanitizeToolName oname" oargs "snd (parseToolResult rt result)"]
        by (simp add: build_followUp_request_def history_of_append hist history_of_Stored)
      have pre1: "prefix (map Stored base) ?h1"
        using "3.prems"(2) by (simp add: prefix_def) auto
      show ?thesis
      proof (cases reply)
        case (Inl e)
        with "3.prems"(1) Inr p call result snd have "w' = w2" by (simp add: Let_def)
        with w2 ok show ?thesis by simp
      next
        case body: (Inr followUpBody)
        note start = Inr p [symmetric] call [symmetric] result refl refl refl snd [symmetric] body
        have rest: "\<exists>new. invocations w' = invocations w2 @ new
            \<and> list_all (\<lambda>req. closing_exchange (messages req) \<and> prefix base (messages req)) new"
        proof (cases followUpBody)
          case Nil
          with "3.prems"(1) Inr p call result snd body
          have run: "build_blocks rt c rest finalText ?ac1 ?h1 w2 = (r, ac', h', w')"
            by (simp add: Let_def)
          from "3.IH"(2) [OF start Nil run pre1] show ?thesis .
        next
          case (Cons b others)
          show ?thesis
          proof (cases b)
            case (Text t)
            let ?h2 = "?h1 @ [Stored \<lparr>role = Assistant, content = [Text t]\<rparr>]"
            from "3.prems"(1) Inr p call result snd body Cons Text
            have run: "build_blocks rt c rest (finalText @ [t]) ?ac1 ?h2 w2 = (r, ac', h', w')"
              by (simp add: Let_def)
            have pre2: "prefix (map Stored base) ?h2"
              using pre1 by (metis prefix_prefix)
            from "3.IH"(3) [OF start Cons Text run pre2] show ?thesis .
          next
            case (ToolUse j m x)
            with "3.prems"(1) Inr p call result snd body Cons
            have run: "build_blocks rt c rest finalText ?ac1 ?h1 w2 = (r, ac', h', w')"
              by (simp add: Let_def)
            from "3.IH"(4) [OF start Cons ToolUse run pre1] show ?thesis .
          next
            case (ToolResult j x)
            with "3.prems"(1) Inr p call result snd body Cons
            have run: "build_blocks rt c rest finalText ?ac1 ?h1 w2 = (r, ac', h', w')"
              by (simp add: Let_def)
            from "3.IH"(5) [OF start Cons ToolResult run pre1] show ?thesis .
          qed
        qed
        then obtain new where "invocations w' = invocations w2 @ new"
          and "list_all (\<lambda>req. closing_exchange (messages req) \<and> prefix base (messages req)) new"
          by blast
        with w2 ok show ?thesis by simp
      qed
    qed
  qed
next
  case (4 rt c i t rest finalText assistantContent history w)
  then show ?case by simp
qed


lemma processQuery_build_invocations:
  "\<exists>new. invocations (snd (snd (processQuery_build rt c q w)))
      = invocations w
        @ first_request (c\<lparr>conversationHistory := conversationHistory c @ [\<lparr>role = User, content = [Text q]\<rparr>]\<rparr>)
            (conversationHistory c @ [\<lparr>role = User, content = [Text q]\<rparr>]) # new
    \<and> list_all (\<lambda>req. closing_exchange (messages req)
          \<and> prefix (conversationHistory c @ [\<lparr>role = User, content = [Text q]\<rparr>]) (messages req)) new"
proof -
  let ?um = "\<lparr>role = User, content = [Text q]\<rparr>"
  let ?c1 = "c\<lparr>conversationHistory := conversationHistory c @ [?um]\<rparr>"
  let ?base = "conversationHistory c @ [?um]"
  obtain reply w1 where first: "send rt (first_request ?c1 ?base) w = (reply, w1)"
    by (cases "send rt (first_request ?c1 ?base) w")
  have w1: "invocations w1 = invocations w @ [first_request ?c1 ?base]"
    using send_invocations [OF first] .
  show ?thesis
  proof (cases reply)
    case (Inl e)
    with first w1 show ?thesis by (simp add: processQuery_build_def)
  next
    case (Inr body)
    obtain r ac h w2 where loop: "build_blocks rt ?c1 body [] [] (map Stored ?base) w1 = (r, ac, h, w2)"
      by (cases "build_blocks rt ?c1 body [] [] (map Stored ?base) w1")
    from build_blocks_invocations [OF loop, of ?base]
    obtain new where "invocations w2 = invocations w1 @ new"
      and "list_all (\<lambda>req. closing_exchange (messages req) \<and> prefix ?base (messages req)) new"
      by auto
    with first w1 Inr loop show ?thesis
      by (simp add: processQuery_build_def)
  qed
qed

text \<open>
  C6. After any run of stateless turns the client is what it was before, and so is its
  conversation history. A stateless turn does not read the history either: with any other
  history in its place the answer and the requests are the same, and the first request
  carries the current user message alone.
\<close>

theorem stateless_turns_keep_history:
  "fst (snd (stateless_turns rt c queries w)) = c
   \<and> conversationHistory (fst (snd (stateless_turns rt c queries w))) = conversationHistory c
   \<and> length (conversationHistory (fst (snd (stateless_turns rt c queries w))))
       = length (conversationHistory c)
   \<and> processQuery rt (c\<lparr>conversationHistory := h\<rparr>) q True w
       = (case processQuery rt c q True w of (r, c', w') \<Rightarrow> (r, c'\<lparr>conversationHistory := h\<rparr>, w'))
   \<and> (\<exists>new. invocations (snd (snd (processQuery rt c q True w)))
         = invocations w @ first_request c [\<lparr>role = User, content = [Text q]\<rparr>] # new)"
  using processQuery_stateless_invocations [of rt c q w]
  by (auto simp: stateless_turns_client processQuery_stateless_history)

theorem stateless_turns_keep_history_witness:
  "fst (snd (stateless_turns scripted (connected [\<lparr>role = User, content = [Text (utf16 ''hi'')]\<rparr>])
               [utf16 ''list'', utf16 ''again''] (start (tl (fst two_turns_script), snd two_turns_script))))
     = connected [\<lparr>role = User, content = [Text (utf16 ''hi'')]\<rparr>]
   \<and> fst (stateless_turns scripted (connected [\<lparr>role = User, content = [Text (utf16 ''hi'')]\<rparr>])
            [utf16 ''list'', utf16 ''again''] (start (tl (fst two_turns_script), snd two_turns_script)))
     = [utf16 ''No tables'', utf16 ''Error: no reply'']"
proof -
  have answers:
    "fst (stateless_turns scripted (connected [\<lparr>role = User, content = [Text (utf16 ''hi'')]\<rparr>])
            [utf16 ''list'', utf16 ''again''] (start (tl (fst two_turns_script), snd two_turns_script)))
     = [utf16 ''No tables'', utf16 ''Error: no reply'']"
    by code_simp
  with stateless_turns_keep_history
         [of scripted "connected [\<lparr>role = User, content = [Text (utf16 ''hi'')]\<rparr>]"
            "[utf16 ''list'', utf16 ''again'']" "start (tl (fst two_turns_script), snd two_turns_script)"]
  show ?thesis by simp
qed

text \<open>
  C7, as the code has it. Every request after the first one of a turn follows an executed
  tool. In the stateless branch its messages are exactly a user message, an assistant message
  with the tool use and a user message with the tool result of the same id. In the compiled
  client its messages are the whole conversation so far: they begin with the history and the
  user message of the turn, and they end with an assistant message whose last block is the
  tool use and a user message with the tool result of the same id.
\<close>

theorem follow_up_exchanges:
  "(\<exists>new. invocations (snd (snd (processQuery rt c q True w)))
        = invocations w @ first_request c [\<lparr>role = User, content = [Text q]\<rparr>] # new
      \<and> list_all (\<lambda>req. follow_up_exchange (messages req)) new)
   \<and> (\<exists>new. invocations (snd (snd (processQuery_build rt c q w)))
        = invocations w
          @ first_request (c\<lparr>conversationHistory := conversationHistory c @ [\<lparr>role = User, content = [Text q]\<rparr>]\<rparr>)
              (conversationHistory c @ [\<lparr>role = User, content = [Text q]\<rparr>]) # new
      \<and> list_all (\<lambda>req. closing_exchange (messages req)
            \<and> prefix (conversationHistory c @ [\<lparr>role = User, content = [Text q]\<rparr>]) (messages req)) new)"
  using processQuery_stateless_invocations [of rt c q w] processQuery_build_invocations [of rt c q w]
  by blast

theorem follow_up_exchanges_witness:
  "(case processQuery scripted (connected []) (utf16 ''list'') True
           (start (tl (fst two_turns_script), snd two_turns_script)) of
      (a, c, w) \<Rightarrow> (a, map messages (invocations w)))
   = (utf16 ''No tables'',
      [[\<lparr>role = User, content = [Text (utf16 ''list'')]\<rparr>],
       [\<lparr>role = User, content = [Text (utf16 ''list'')]\<rparr>,
        \<lparr>role = Assistant, content = [ToolUse (utf16 ''t1'') (utf16 ''dynamodb_list_tables'') (JObj [])]\<rparr>,
        \<lparr>role = User, content = [ToolResult (utf16 ''t1'') (utf16 ''{}'')]\<rparr>]])
   \<and> list_all (\<lambda>req. follow_up_exchange (messages req))
         (tl (invocations (snd (snd (processQuery scripted (connected []) (utf16 ''list'') True
           (start (tl (fst two_turns_script), snd two_turns_script)))))))"
proof -
  have run: "(case processQuery scripted (connected []) (utf16 ''list'') True
           (start (tl (fst two_turns_script), snd two_turns_script)) of
      (a, c, w) \<Rightarrow> (a, map messages (invocations w)))
   = (utf16 ''No tables'',
      [[\<lparr>role = User, content = [Text (utf16 ''list'')]\<rparr>],
       [\<lparr>role = User, content = [Text (utf16 ''list'')]\<rparr>,
        \<lparr>role = Assistant, content = [ToolUse (utf16 ''t1'') (utf16 ''dynamodb_list_tables'') (JObj [])]\<rparr>,
        \<lparr>role = User, content = [ToolResult (utf16 ''t1'') (utf16 ''{}'')]\<rparr>]])"
    by code_simp
  from follow_up_exchanges [of scripted "connected []" "utf16 ''list''"
      "start (tl (fst two_turns_script), snd two_turns_script)"]
  have "list_all (\<lambda>req. follow_up_exchange (messages req))
         (tl (invocations (snd (snd (processQuery scripted (connected []) (utf16 ''list'') True
           (start (tl (fst two_turns_script), snd two_turns_script)))))))"
    by (auto simp: start_def)
  with run show ?thesis by blast
qed

text \<open>
  The claim as it stands fails in the compiled client on the second turn of a conversation:
  the follow-up request (the one with 1000 tokens) carries the user message of the first
  turn as well, and its roles are user, user, assistant, user.
\<close>

theorem follow_up_roles_counterexample:
  "(case processQuery_build scripted (connected []) (utf16 ''hi'') (start two_turns_script) of
      (a1, c1, w1) \<Rightarrow>
        (case processQuery_build scripted c1 (utf16 ''list'') w1 of
           (a2, c2, w2) \<Rightarrow> map (\<lambda>r. (max_tokens r, map role (messages r))) (invocations w2)))
   = [(2000, [User]), (2000, [User, User]), (1000, [User, User, Assistant, User])]"
  by code_simp

text \<open>
  In the stateful branch a rejected tool call adds its error text to the output and the loop
  goes on with the next block.
\<close>

lemma stateful_tool_failure_contained:
  assumes "optimizeQuery n inp = Inr (optimized_name, optimized_args)"
    and "callTool rt
           (mcpToolName (sanitizedToOriginalToolName c) (sanitizeToolName optimized_name)
              optimized_name)
           optimized_args w = (Inl err, w1)"
  shows "stateful_blocks rt c (ToolUse i n inp # rest) finalText assistantContent w
    = stateful_blocks rt c rest
        (finalText @ [tool_failed (sanitizeToolName optimized_name) err]) assistantContent w1"
  using assms by simp

text \<open>
  C1. A turn whose tool call is rejected is meant to return a string with the sanitized tool
  name and the reason, to keep the texts before the tool use and to go on with the blocks
  after it, in both modes. The stateless branch returns the error text alone: when the model
  answers \<open>Checking\<close>, a tool use and \<open>Done\<close> and the tool call is rejected, the
  answer has neither \<open>Checking\<close> nor \<open>Done\<close>. The same reply in the stateful branch
  gives all three.
\<close>

theorem stateless_tool_failure_drops_text:
  "fst (processQuery scripted (connected []) (utf16 ''list'') True (start failing_script))
     = tool_failed (utf16 ''dynamodb_list_tables'')
         (JsError (utf16 ''McpError'') (utf16 ''Connection closed''))
   \<and> \<not> sublist (utf16 ''Checking'')
         (fst (processQuery scripted (connected []) (utf16 ''list'') True (start failing_script)))
   \<and> \<not> sublist (utf16 ''Done'')
         (fst (processQuery scripted (connected []) (utf16 ''list'') True (start failing_script)))
   \<and> fst (processQuery scripted (connected []) (utf16 ''list'') False (start failing_script))
     = utf16 ''Checking'' @ [0x0A]
       @ tool_failed (utf16 ''dynamodb_list_tables'')
           (JsError (utf16 ''McpError'') (utf16 ''Connection closed''))
       @ [0x0A] @ utf16 ''Done''"
  by code_simp

section \<open>Properties of the HTTP handlers\<close>

text \<open>
  C9, as the code has it. The handler of \<open>endpoint.js\<close> answers 503 with an error field
  while the client is not ready, and once it is ready it answers 400 with an error field to
  a request whose \<open>query\<close> is absent or otherwise falsy. The handler of \<open>startEndpoint\<close>
  answers 400 with an error field whenever \<open>query\<close> is absent or is not a non-empty
  string. In all three cases the world is left as it was: no orchestration is invoked,
  whatever the orchestrator is.
\<close>

theorem malformed_query_rejected:
  "(\<not> truthy (own req_body ''query'') \<longrightarrow>
      endpoint_query True (Some mcpProcessQuery) now req_body w
        = (\<lparr>status = 400, body = JObj [(utf16 ''error'', JStr (utf16 ''Query is required.''))]\<rparr>, w))
   \<and> (mcpModule = None \<or> \<not> mcpReady \<longrightarrow>
        endpoint_query mcpReady mcpModule now req_body w
          = (\<lparr>status = 503, body = JObj [(utf16 ''error'', JStr (utf16 ''MCP client not ready.''))]\<rparr>, w))
   \<and> ((\<forall>q. own req_body ''query'' = JStr q \<longrightarrow> q = []) \<longrightarrow>
        (\<exists>text. startEndpoint_query rt mcpClient req_body ws
           = (\<lparr>status = 400, body = JObj [(utf16 ''error'', JStr text)]\<rparr>,
              mcpClient\<lparr>conversationHistory := []\<rparr>, ws)))"
proof (intro conjI impI)
  assume "\<not> truthy (own req_body ''query'')"
  then show "endpoint_query True (Some mcpProcessQuery) now req_body w
        = (\<lparr>status = 400, body = JObj [(utf16 ''error'', JStr (utf16 ''Query is required.''))]\<rparr>, w)"
    by (simp add: endpoint_query_def error_reply_def)
next
  assume "mcpModule = None \<or> \<not> mcpReady"
  then show "endpoint_query mcpReady mcpModule now req_body w
          = (\<lparr>status = 503, body = JObj [(utf16 ''error'', JStr (utf16 ''MCP client not ready.''))]\<rparr>, w)"
    by (auto simp: endpoint_query_def error_reply_def split: option.splits)
next
  assume "\<forall>q. own req_body ''query'' = JStr q \<longrightarrow> q = []"
  then show "\<exists>text. startEndpoint_query rt mcpClient req_body ws
           = (\<lparr>status = 400, body = JObj [(utf16 ''error'', JStr text)]\<rparr>,
              mcpClient\<lparr>conversationHistory := []\<rparr>, ws)"
    by (cases "own req_body ''query''") (simp_all add: startEndpoint_query_def error_reply_def Let_def)
qed

theorem malformed_query_rejected_witness:
  "\<not> truthy (own [] ''query'')
   \<and> status (fst (endpoint_query True (Some counting) (utf16 ''t'') [] 0)) = 400
   \<and> snd (endpoint_query True (Some counting) (utf16 ''t'') [] 0) = 0
   \<and> status (fst (endpoint_query False (Some counting) (utf16 ''t'') [] 0)) = 503
   \<and> (\<exists>text. startEndpoint_query scripted (connected []) [(utf16 ''query'', JNum 5)]
                (start two_turns_script)
        = (\<lparr>status = 400, body = JObj [(utf16 ''error'', JStr text)]\<rparr>,
           connected [], start two_turns_script))"
proof -
  have absent: "\<not> truthy (own [] ''query'')"
    by (simp add: own_def)
  have number: "\<forall>q. own [(utf16 ''query'', JNum 5)] ''query'' = JStr q \<longrightarrow> q = []"
    by (simp add: own_def)
  have reset: "(connected [])\<lparr>conversationHistory := []\<rparr> = connected []"
    by (simp add: connected_def)
  from absent number reset
    malformed_query_rejected [where req_body = "[]" and mcpProcessQuery = counting
      and now = "utf16 ''t''" and w = "0::nat" and mcpModule = "Some counting" and mcpReady = False
      and rt = scripted and mcpClient = "connected []" and ws = "start two_turns_script"]
    malformed_query_rejected [where req_body = "[(utf16 ''query'', JNum 5)]"
      and mcpProcessQuery = counting and now = "utf16 ''t''" and w = "0::nat"
      and mcpModule = "Some counting" and mcpReady = False
      and rt = scripted and mcpClient = "connected []" and ws = "start two_turns_script"]
  show ?thesis
    by simp
qed

text \<open>
  The claim as it stands fails in \<open>endpoint.js\<close>: before the client is ready a request
  without \<open>query\<close> is answered 503, and a \<open>query\<close> that is the number 5 goes to the
  orchestrator, which is called once, and is answered 200.
\<close>

theorem malformed_query_counterexample:
  "status (fst (endpoint_query False (Some counting) (utf16 ''t'') [] 0)) = 503
   \<and> endpoint_query True (Some counting) (utf16 ''t'') [(utf16 ''query'', JNum 5)] 0
       = (\<lparr>status = 200,
           body = JObj [(utf16 ''result'', JStr (utf16 ''ok'')), (utf16 ''timestamp'', JStr (utf16 ''t''))]\<rparr>,
          1)"
  by code_simp

section \<open>Properties of queryTable\<close>







lemma scanTable_result:
  "\<exists>result w1. scanTable rt params w = (Inr result, w1)"
  by (auto simp: scanTable_def split: prod.splits sum.splits)







end
